theory Spec2Isabelle
  imports Complex_Main "HOL-Library.Sublist"
begin

section \<open>The continuous-integration configuration\<close>

text \<open>
  The build configuration (the YAML file kept under \<^verbatim>\<open>src/unnamed/part_000\<close>) is data:
  a list of global environment assignments, a list of matrix entries that each carry
  their own assignments, and a script phase whose last line is the word \<^verbatim>\<open>$CMD\<close>.
  The runner exports the global assignments, then the entry's own, in the order written;
  the shell expands \<^verbatim>\<open>$NAME\<close> inside unquoted and double-quoted values at that
  moment, and an unset name expands to the empty string.
\<close>

datatype word_part = Lit string | Var string

type_synonym assignment = "string \<times> word_part list"

type_synonym shell_env = "string \<Rightarrow> string option"

record job =
  job_comment :: string
  job_stage :: "string option"
  job_os :: "string option"
  job_env :: "assignment list"

fun expand_part :: "shell_env \<Rightarrow> word_part \<Rightarrow> string" where
  "expand_part E (Lit s) = s"
| "expand_part E (Var n) = (case E n of None \<Rightarrow> [] | Some v \<Rightarrow> v)"

definition expand :: "shell_env \<Rightarrow> word_part list \<Rightarrow> string" where
  "expand E ps = concat (map (expand_part E) ps)"

fun export_all :: "shell_env \<Rightarrow> assignment list \<Rightarrow> shell_env" where
  "export_all E [] = E"
| "export_all E ((n, v) # as) = export_all (E(n \<mapsto> expand E v)) as"

definition env_global :: "assignment list" where
  "env_global =
    [(''PYTHON_VERSION'', [Lit ''3.7'']),
     (''NUMPY_VERSION'', [Lit ''stable'']),
     (''ASTROPY_VERSION'', [Lit ''stable'']),
     (''ASTROPY_USE_SYSTEM_PYTEST'', [Lit ''1'']),
     (''CONDA_DEPENDENCIES'',
        [Lit ''Cython click scipy healpy matplotlib pyyaml pandas naima sherpa regions reproject pandoc ipython iminuit'']),
     (''CONDA_DEPENDENCIES_OSX'',
        [Lit ''Cython click scipy healpy matplotlib pyyaml pandas naima sherpa regions reproject pandoc ipython iminuit'']),
     (''CONDA_DEPENDENCIES_WO_SHERPA'',
        [Lit ''Cython click scipy healpy matplotlib pyyaml pandas naima regions reproject pandoc ipython iminuit'']),
     (''CONDA_DEPENDENCIES_DOCS'',
        [Lit ''Cython click scipy healpy matplotlib pyyaml pandas naima pygments sherpa regions reproject pandoc ipython jupyter iminuit'']),
     (''PIP_DEPENDENCIES'',
        [Lit ''nbsphinx sphinx-astropy sphinx-gallery sphinx-click sphinx_rtd_theme pytest-astropy parfive pydantic'']),
     (''CONDA_CHANNELS'', [Lit ''astropy sherpa'']),
     (''FETCH_GAMMAPY_DATA'', [Lit ''true'']),
     (''TEST_COVERAGE'', [Lit ''false'']),
     (''TEST_PACKAGING'', [Lit ''false'']),
     (''RUN_INSTALL'', [Lit ''true'']),
     (''DEBUG'', [Lit ''True''])]"

definition matrix_include :: "job list" where
  "matrix_include =
    [\<lparr>job_comment = ''Main test, used for coverage'',
      job_stage = Some ''Initial tests'', job_os = None,
      job_env = [(''TEST_COVERAGE'', [Lit ''true'']),
                 (''CMD'', [Lit ''make test-cov'']),
                 (''PIP_DEPENDENCIES'', [Var ''PIP_DEPENDENCIES'', Lit '' pytest-cov codecov''])]\<rparr>,
     \<lparr>job_comment = ''MacOS X tests'',
      job_stage = None, job_os = Some ''osx'',
      job_env = [(''PYTHON_VERSION'', [Lit ''3.6'']),
                 (''CMD'', [Lit ''make test'']),
                 (''CONDA_DEPENDENCIES'', [Var ''CONDA_DEPENDENCIES_OSX''])]\<rparr>,
     \<lparr>job_comment = ''Run tests without optional dependencies'',
      job_stage = None, job_os = None,
      job_env = [(''PYTHON_VERSION'', [Lit ''3.6'']),
                 (''CMD'', [Lit ''make test'']),
                 (''CONDA_DEPENDENCIES'', [Lit ''Cython click regions'']),
                 (''PIP_DEPENDENCIES'', [Lit ''pytest-astropy parfive pydantic''])]\<rparr>,
     \<lparr>job_comment = ''Run tests without GAMMAPY_DATA available'',
      job_stage = Some ''Initial tests'', job_os = None,
      job_env = [(''CMD'', [Lit ''make test'']),
                 (''FETCH_GAMMAPY_DATA'', [Lit ''false''])]\<rparr>,
     \<lparr>job_comment = ''Build docs'',
      job_stage = None, job_os = None,
      job_env = [(''CMD'', [Lit ''make docs-all'']),
                 (''CONDA_DEPENDENCIES'', [Var ''CONDA_DEPENDENCIES_DOCS''])]\<rparr>,
     \<lparr>job_comment = ''Test conda build (which runs a bunch of useful tests after building the package)'',
      job_stage = None, job_os = None,
      job_env = [(''CMD'', [Lit ''python setup.py bdist_conda'']),
                 (''TEST_PACKAGING'', [Lit ''true'']),
                 (''CONDA_CHANNELS'', [Lit ''astropy sherpa conda-forge''])]\<rparr>,
     \<lparr>job_comment = ''Test with Astropy dev version'',
      job_stage = None, job_os = None,
      job_env = [(''PYTHON_VERSION'', [Lit ''3.6'']),
                 (''ASTROPY_VERSION'', [Lit ''dev'']),
                 (''CMD'', [Lit ''make test'']),
                 (''CONDA_DEPENDENCIES'', [Var ''CONDA_DEPENDENCIES''])]\<rparr>,
     \<lparr>job_comment = ''Test with Sherpa dev, this may take a longer time'',
      job_stage = None, job_os = None,
      job_env = [(''PYTHON_VERSION'', [Lit ''3.6'']),
                 (''SETUP_CMD'', [Lit ''make test'']),
                 (''CONDA_DEPENDENCIES'', [Var ''CONDA_DEPENDENCIES_WO_SHERPA'']),
                 (''DEBUG'', [Lit ''True'']),
                 (''PIP_DEPENDENCIES'',
                    [Lit ''git+http://github.com/sherpa/sherpa.git#egg=sherpa pytest-astropy parfive pydantic''])]\<rparr>,
     \<lparr>job_comment = ''Test Jupyter notebooks'',
      job_stage = None, job_os = None,
      job_env = [(''PYTHON_VERSION'', [Lit ''3.6'']),
                 (''CMD'', [Lit ''make test-nb'']),
                 (''CONDA_DEPENDENCIES'', [Var ''CONDA_DEPENDENCIES_DOCS''])]\<rparr>,
     \<lparr>job_comment = ''Test example scripts'',
      job_stage = None, job_os = None,
      job_env = [(''PYTHON_VERSION'', [Lit ''3.6'']),
                 (''CMD'', [Lit ''make test-scripts'']),
                 (''CONDA_DEPENDENCIES'', [Var ''CONDA_DEPENDENCIES''])]\<rparr>]"

text \<open>The environment a job runs with: the global assignments, then the entry's own.\<close>

definition job_environment :: "job \<Rightarrow> shell_env" where
  "job_environment j = export_all (export_all (\<lambda>n. None) env_global) (job_env j)"

text \<open>
  The last line of the script phase is the single word \<^verbatim>\<open>$CMD\<close>; the text the shell
  runs for it is the expansion of that word in the job's environment.
\<close>

definition script_last_line :: "word_part list" where
  "script_last_line = [Var ''CMD'']"

definition script_command :: "job \<Rightarrow> string" where
  "script_command j = expand (job_environment j) script_last_line"

text \<open>The command an entry declares: the literal it assigns to \<^verbatim>\<open>CMD\<close>, when it assigns one.\<close>

definition declared_cmd :: "job \<Rightarrow> string option" where
  "declared_cmd j =
     (case map_of (job_env j) ''CMD'' of
        Some [Lit c] \<Rightarrow> Some c
      | _ \<Rightarrow> None)"

definition runs_declared_cmd :: "job \<Rightarrow> bool" where
  "runs_declared_cmd j =
     (case declared_cmd j of
        None \<Rightarrow> False
      | Some c \<Rightarrow> c \<noteq> [] \<and> script_command j = c)"

definition sherpa_dev_job :: job where
  "sherpa_dev_job = matrix_include ! 7"


section \<open>Notebooks as programs over an external library\<close>

text \<open>
  A notebook is a straight sequence of code cells run by one Python kernel. Every
  statement of a cell ends in the external library (or in the standard library): a call,
  an attribute or subscript access, an operator applied to library objects, an import.
  The notebooks define no function or class of their own.

  The model keeps that shape. The library is a parameter: for each call site it maps the
  arguments and the library's own state to an outcome, a raised exception or a value,
  and a new state. Objects of the library are opaque references (\<open>PyObj\<close>); whatever
  a call mutates lives in the library's state. A run of a notebook threads a world
  through its statements: the trace of events so far, the file system, and the state of
  the library. An exception ends the run at the statement that raised it.
\<close>

datatype exn = PyExc string

datatype 'o pyval =
    PyNone
  | PyBool bool
  | PyInt int
  | PyFloat real
  | PyStr string
  | PyList "'o pyval list"
  | PyTuple "'o pyval list"
  | PyDict "(string \<times> 'o pyval) list"
  | PyPath string
  | PyObj 'o

datatype 'o arg = Pos "'o pyval" | Kw string "'o pyval"

text \<open>
  The syntactic kind of a statement's step. \<open>Call\<close> is a function, method or
  constructor call; \<open>BinOp\<close> is a binary operator written in the notebook;
  \<open>Format\<close> is the interpolation of an f-string.
\<close>

datatype kind =
  Import | Magic | Call | GetAttr | SetAttr | GetItem | SetItem | BinOp | Iter | Format

datatype node = Dir | File string

datatype access = NoFile | ReadsUnder string | Creates string | WritesFile string

datatype 'o event =
  Event (ev_kind: kind) (ev_site: string) (ev_args: "'o arg list")
        (ev_result: "exn + 'o pyval") (ev_access: access)

type_synonym filesystem = "string \<Rightarrow> node option"

record ('o, 'x) world =
  trace :: "'o event list"
  fs :: filesystem
  ext :: 'x

record ('o, 'x) library =
  lib_call :: "kind \<Rightarrow> string \<Rightarrow> 'o arg list \<Rightarrow> 'x \<Rightarrow> (exn + 'o pyval) \<times> 'x"
  lib_iter :: "string \<Rightarrow> 'o pyval \<Rightarrow> 'x \<Rightarrow> (exn + 'o pyval list) \<times> 'x"
  lib_read :: "string \<Rightarrow> filesystem \<Rightarrow> 'o arg list \<Rightarrow> 'x \<Rightarrow> (exn + 'o pyval) \<times> 'x"
  lib_serialize :: "'o pyval \<Rightarrow> 'x \<Rightarrow> exn + string"

type_synonym ('a, 'o, 'x) nb = "('o, 'x) world \<Rightarrow> (exn + 'a) \<times> ('o, 'x) world"

definition nb_return :: "'a \<Rightarrow> ('a, 'o, 'x) nb" where
  "nb_return a w = (Inr a, w)"

definition nb_bind :: "('a, 'o, 'x) nb \<Rightarrow> ('a \<Rightarrow> ('b, 'o, 'x) nb) \<Rightarrow> ('b, 'o, 'x) nb" where
  "nb_bind m k w = (case m w of (Inl e, w') \<Rightarrow> (Inl e, w') | (Inr a, w') \<Rightarrow> k a w')"

text \<open>One statement after another, the first one's value dropped.\<close>

definition nb_seq :: "('a, 'o, 'x) nb \<Rightarrow> ('b, 'o, 'x) nb \<Rightarrow> ('b, 'o, 'x) nb" where
  "nb_seq m k = nb_bind m (\<lambda>_. k)"

text \<open>A step into the library: the outcome goes to the trace, the new state to the world.\<close>

definition step :: "('o, 'x) library \<Rightarrow> kind \<Rightarrow> string \<Rightarrow> 'o arg list \<Rightarrow> ('o pyval, 'o, 'x) nb" where
  "step L k site args w =
     (case lib_call L k site args (ext w) of
        (r, x') \<Rightarrow> (r, w\<lparr>trace := trace w @ [Event k site args r NoFile], ext := x'\<rparr>))"

definition call :: "('o, 'x) library \<Rightarrow> string \<Rightarrow> 'o arg list \<Rightarrow> ('o pyval, 'o, 'x) nb" where
  "call L site args = step L Call site args"

definition getattr :: "('o, 'x) library \<Rightarrow> string \<Rightarrow> 'o pyval \<Rightarrow> ('o pyval, 'o, 'x) nb" where
  "getattr L site obj = step L GetAttr site [Pos obj]"

definition setattr :: "('o, 'x) library \<Rightarrow> string \<Rightarrow> 'o pyval \<Rightarrow> 'o pyval \<Rightarrow> ('o pyval, 'o, 'x) nb" where
  "setattr L site obj v = step L SetAttr site [Pos obj, Pos v]"

definition getitem :: "('o, 'x) library \<Rightarrow> string \<Rightarrow> 'o pyval \<Rightarrow> 'o pyval \<Rightarrow> ('o pyval, 'o, 'x) nb" where
  "getitem L site obj key = step L GetItem site [Pos obj, Pos key]"

definition setitem :: "('o, 'x) library \<Rightarrow> string \<Rightarrow> 'o pyval \<Rightarrow> 'o pyval \<Rightarrow> 'o pyval \<Rightarrow> ('o pyval, 'o, 'x) nb" where
  "setitem L site obj key v = step L SetItem site [Pos obj, Pos key, Pos v]"

text \<open>A binary operator expression; its site is the expression as the notebook writes it.\<close>

definition binop :: "('o, 'x) library \<Rightarrow> string \<Rightarrow> 'o pyval \<Rightarrow> 'o pyval \<Rightarrow> ('o pyval, 'o, 'x) nb" where
  "binop L site a b = step L BinOp site [Pos a, Pos b]"

definition import_stmt :: "('o, 'x) library \<Rightarrow> string \<Rightarrow> ('o pyval, 'o, 'x) nb" where
  "import_stmt L text = step L Import text []"

definition magic :: "('o, 'x) library \<Rightarrow> string \<Rightarrow> ('o pyval, 'o, 'x) nb" where
  "magic L text = step L Magic text []"

text \<open>
  A name bound by an import (a module attribute such as \<^verbatim>\<open>u.deg\<close>): read through
  the library, with no receiver of the notebook's own.
\<close>

definition module_attr :: "('o, 'x) library \<Rightarrow> string \<Rightarrow> ('o pyval, 'o, 'x) nb" where
  "module_attr L site = step L GetAttr site []"

text \<open>
  \<^verbatim>\<open>for x in xs\<close>: the container yields its items (one step, whose outcome is the
  list of items), then the body runs once for each item, in order.
\<close>

definition iterate :: "('o, 'x) library \<Rightarrow> string \<Rightarrow> 'o pyval \<Rightarrow> ('o pyval list, 'o, 'x) nb" where
  "iterate L site v w =
     (case lib_iter L site v (ext w) of
        (r, x') \<Rightarrow>
          (r, w\<lparr>trace := trace w @ [Event Iter site [Pos v] (map_sum id PyList r) NoFile],
                 ext := x'\<rparr>))"

fun for_each :: "'a list \<Rightarrow> ('a \<Rightarrow> ('b, 'o, 'x) nb) \<Rightarrow> (unit, 'o, 'x) nb" where
  "for_each [] body = nb_return ()"
| "for_each (x # xs) body = nb_bind (body x) (\<lambda>_. for_each xs body)"

subsection \<open>Files\<close>

text \<open>
  Paths are the strings the notebook writes, relative to the working directory, which
  exists. \<^verbatim>\<open>Path(s)\<close> and \<^verbatim>\<open>path / s\<close> are pure.
\<close>

type_synonym pypath = string

definition Path :: "string \<Rightarrow> pypath" where
  "Path s = s"

definition path_div :: "pypath \<Rightarrow> string \<Rightarrow> pypath" where
  "path_div p s = p @ ''/'' @ s"

text \<open>The directory a relative path lies in; \<open>None\<close> is the working directory.\<close>

definition parent_dir :: "string \<Rightarrow> string option" where
  "parent_dir p =
     (if CHR ''/'' \<in> set p then Some (rev (tl (dropWhile (\<lambda>c. c \<noteq> CHR ''/'') (rev p)))) else None)"

definition parent_is_dir :: "filesystem \<Rightarrow> string \<Rightarrow> bool" where
  "parent_is_dir f p = (case parent_dir p of None \<Rightarrow> True | Some d \<Rightarrow> f d = Some Dir)"

text \<open>
  \<^verbatim>\<open>Path.mkdir(exist_ok=...)\<close> of the standard library, with \<^verbatim>\<open>parents=False\<close>:
  a path that exists raises FileExistsError unless \<^verbatim>\<open>exist_ok\<close> is set and the path
  is a directory; a missing parent raises FileNotFoundError; otherwise the directory is
  created.
\<close>

definition mkdir_outcome :: "filesystem \<Rightarrow> string \<Rightarrow> bool \<Rightarrow> exn + filesystem" where
  "mkdir_outcome f p exist_ok =
     (case f p of
        Some n \<Rightarrow> (if exist_ok \<and> n = Dir then Inr f else Inl (PyExc ''FileExistsError''))
      | None \<Rightarrow>
          (if parent_is_dir f p then Inr (f(p \<mapsto> Dir)) else Inl (PyExc ''FileNotFoundError'')))"

definition path_mkdir :: "pypath \<Rightarrow> bool \<Rightarrow> ('o pyval, 'o, 'x) nb" where
  "path_mkdir path exist_ok w =
     (let args = [Pos (PyPath path), Kw ''exist_ok'' (PyBool exist_ok)];
          acc = Creates path in
      case mkdir_outcome (fs w) path exist_ok of
        Inl e \<Rightarrow> (Inl e, w\<lparr>trace := trace w @ [Event Call ''path.mkdir'' args (Inl e) acc]\<rparr>)
      | Inr f' \<Rightarrow>
          (Inr PyNone,
           w\<lparr>trace := trace w @ [Event Call ''path.mkdir'' args (Inr PyNone) acc], fs := f'\<rparr>))"

text \<open>
  Modelled from the spec: the library's data-file interface, whose code is not among
  the sources. ``Reads instrument-response and event files from a directory referenced
  by an environment variable'': a reading call is given the files under the directory
  it is pointed to, and nothing else of the file system. ``Writes stacked dataset
  products to a compressed archive file on disk'': a writing call serialises the dataset
  and stores the result at the file name it is given; with \<^verbatim>\<open>overwrite\<close> set an
  existing file is replaced, without it an existing file is an error. No other call of
  the library sees or changes the file system.
\<close>

definition files_under :: "string \<Rightarrow> filesystem \<Rightarrow> filesystem" where
  "files_under d f = (\<lambda>p. if prefix d p then f p else None)"

definition read_call ::
  "('o, 'x) library \<Rightarrow> string \<Rightarrow> string \<Rightarrow> ('o pyval, 'o, 'x) nb" where
  "read_call L site d w =
     (case lib_read L site (files_under d (fs w)) [Pos (PyStr d)] (ext w) of
        (r, x') \<Rightarrow>
          (r, w\<lparr>trace := trace w @ [Event Call site [Pos (PyStr d)] r (ReadsUnder d)],
                 ext := x'\<rparr>))"

definition write_outcome :: "filesystem \<Rightarrow> string \<Rightarrow> bool \<Rightarrow> string \<Rightarrow> exn + filesystem" where
  "write_outcome f p overwrite content =
     (case f p of
        Some (File old) \<Rightarrow>
          (if overwrite then Inr (f(p \<mapsto> File content)) else Inl (PyExc ''OSError''))
      | Some Dir \<Rightarrow>
          (if overwrite then Inl (PyExc ''IsADirectoryError'') else Inl (PyExc ''OSError''))
      | None \<Rightarrow>
          (if parent_is_dir f p then Inr (f(p \<mapsto> File content))
           else Inl (PyExc ''FileNotFoundError'')))"

definition dataset_write ::
  "('o, 'x) library \<Rightarrow> string \<Rightarrow> 'o pyval \<Rightarrow> pypath \<Rightarrow> bool \<Rightarrow> ('o pyval, 'o, 'x) nb" where
  "dataset_write L site obj filename overwrite w =
     (let args = [Pos obj, Pos (PyPath filename), Kw ''overwrite'' (PyBool overwrite)];
          acc = WritesFile filename;
          r = (case lib_serialize L obj (ext w) of
                 Inl e \<Rightarrow> Inl e
               | Inr content \<Rightarrow> write_outcome (fs w) filename overwrite content) in
      case r of
        Inl e \<Rightarrow> (Inl e, w\<lparr>trace := trace w @ [Event Call site args (Inl e) acc]\<rparr>)
      | Inr f' \<Rightarrow>
          (Inr PyNone, w\<lparr>trace := trace w @ [Event Call site args (Inr PyNone) acc], fs := f'\<rparr>))"

section \<open>The notebook \<^verbatim>\<open>tutorials/analysis_2.ipynb\<close>\<close>

text \<open>
  One definition for each code cell, in the order of the file. A cell takes the
  variables it reads that an earlier cell bound, and returns the ones a later cell reads.
\<close>

text \<open>\<^verbatim>\<open>%matplotlib inline; import matplotlib.pyplot as plt\<close>\<close>

definition analysis_2_cell_1 :: "('o, 'x) library \<Rightarrow> ('o pyval, 'o, 'x) nb" where
  "analysis_2_cell_1 L =
     nb_seq (magic L ''%matplotlib inline'')
            (import_stmt L ''import matplotlib.pyplot as plt'')"

definition analysis_2_cell_2 :: "('o, 'x) library \<Rightarrow> ('o pyval, 'o, 'x) nb" where
  "analysis_2_cell_2 L =
     nb_seq (import_stmt L ''from pathlib import Path'')
    (nb_seq (import_stmt L ''import numpy as np'')
    (nb_seq (import_stmt L ''from astropy import units as u'')
    (nb_seq (import_stmt L ''from astropy.coordinates import SkyCoord'')
            (import_stmt L ''from regions import CircleSkyRegion''))))"

definition analysis_2_cell_3 :: "('o, 'x) library \<Rightarrow> ('o pyval, 'o, 'x) nb" where
  "analysis_2_cell_3 L =
     nb_seq (import_stmt L ''from gammapy.data import DataStore'')
    (nb_seq (import_stmt L ''from gammapy.maps import WcsGeom, MapAxis, Map'')
    (nb_seq (import_stmt L
       ''from gammapy.cube import MapDatasetMaker, MapDataset, SafeMaskMaker, FoVBackgroundMaker'')
    (nb_seq (import_stmt L
       ''from gammapy.modeling.models import SkyModel, PowerLawSpectralModel, PointSpatialModel'')
    (nb_seq (import_stmt L ''from gammapy.modeling import Fit'')
            (import_stmt L ''from gammapy.spectrum import FluxPointsEstimator'')))))"

text \<open>\<^verbatim>\<open>data_store = DataStore.from_dir("$GAMMAPY_DATA/hess-dl3-dr1")\<close>\<close>

definition analysis_2_cell_4 :: "('o, 'x) library \<Rightarrow> ('o pyval, 'o, 'x) nb" where
  "analysis_2_cell_4 L = read_call L ''DataStore.from_dir'' ''$GAMMAPY_DATA/hess-dl3-dr1''"

text \<open>
  \<^verbatim>\<open>selection = dict(type="sky_circle", frame="icrs", lon="83.633 deg", lat="22.014 deg", radius="5 deg")\<close>
  \<^verbatim>\<open>selected_obs_table = data_store.obs_table.select_observations(selection)\<close>
\<close>

definition selection :: "'o pyval" where
  "selection = PyDict
     [(''type'', PyStr ''sky_circle''),
      (''frame'', PyStr ''icrs''),
      (''lon'', PyStr ''83.633 deg''),
      (''lat'', PyStr ''22.014 deg''),
      (''radius'', PyStr ''5 deg'')]"

definition analysis_2_cell_5 :: "('o, 'x) library \<Rightarrow> 'o pyval \<Rightarrow> ('o pyval, 'o, 'x) nb" where
  "analysis_2_cell_5 L data_store =
     nb_bind (getattr L ''data_store.obs_table'' data_store) (\<lambda>obs_table.
     call L ''data_store.obs_table.select_observations'' [Pos obs_table, Pos selection])"

text \<open>\<^verbatim>\<open>observations = data_store.get_observations(selected_obs_table["OBS_ID"])\<close>\<close>

definition analysis_2_cell_6 ::
  "('o, 'x) library \<Rightarrow> 'o pyval \<Rightarrow> 'o pyval \<Rightarrow> ('o pyval, 'o, 'x) nb" where
  "analysis_2_cell_6 L data_store selected_obs_table =
     nb_bind (getitem L ''selected_obs_table[OBS_ID]'' selected_obs_table (PyStr ''OBS_ID''))
       (\<lambda>obs_ids.
     call L ''data_store.get_observations'' [Pos data_store, Pos obs_ids])"

text \<open>
  \<^verbatim>\<open>energy_axis = MapAxis.from_energy_bounds(1.0, 10.0, 4, unit="TeV")\<close>
  \<^verbatim>\<open>geom = WcsGeom.create(skydir=(83.633, 22.014), binsz=0.02, width=(2, 2), frame="icrs", proj="CAR", axes=[energy_axis])\<close>
  \<^verbatim>\<open>energy_axis_true = MapAxis.from_energy_bounds(0.5, 20, 10, unit="TeV")\<close>
\<close>

definition analysis_2_cell_7 :: "('o, 'x) library \<Rightarrow> ('o pyval \<times> 'o pyval, 'o, 'x) nb" where
  "analysis_2_cell_7 L =
     nb_bind (call L ''MapAxis.from_energy_bounds''
        [Pos (PyFloat 1.0), Pos (PyFloat 10.0), Pos (PyInt 4), Kw ''unit'' (PyStr ''TeV'')])
       (\<lambda>energy_axis.
     nb_bind (call L ''WcsGeom.create''
        [Kw ''skydir'' (PyTuple [PyFloat 83.633, PyFloat 22.014]),
         Kw ''binsz'' (PyFloat 0.02),
         Kw ''width'' (PyTuple [PyInt 2, PyInt 2]),
         Kw ''frame'' (PyStr ''icrs''),
         Kw ''proj'' (PyStr ''CAR''),
         Kw ''axes'' (PyList [energy_axis])])
       (\<lambda>geom.
     nb_bind (call L ''MapAxis.from_energy_bounds''
        [Pos (PyFloat 0.5), Pos (PyInt 20), Pos (PyInt 10), Kw ''unit'' (PyStr ''TeV'')])
       (\<lambda>energy_axis_true.
     nb_return (geom, energy_axis_true))))"

text \<open>\<^verbatim>\<open>stacked = MapDataset.create(geom=geom, energy_axis_true=energy_axis_true, name="crab-stacked")\<close>\<close>

definition analysis_2_cell_8 ::
  "('o, 'x) library \<Rightarrow> 'o pyval \<Rightarrow> 'o pyval \<Rightarrow> ('o pyval, 'o, 'x) nb" where
  "analysis_2_cell_8 L geom energy_axis_true =
     call L ''MapDataset.create''
       [Kw ''geom'' geom, Kw ''energy_axis_true'' energy_axis_true,
        Kw ''name'' (PyStr ''crab-stacked'')]"

text \<open>
  \<^verbatim>\<open>offset_max = 2.5 * u.deg\<close>
  \<^verbatim>\<open>maker = MapDatasetMaker()\<close>
  \<^verbatim>\<open>maker_safe_mask = SafeMaskMaker(methods=["offset-max"], offset_max=offset_max)\<close>
\<close>

definition analysis_2_cell_9 ::
  "('o, 'x) library \<Rightarrow> ('o pyval \<times> 'o pyval \<times> 'o pyval, 'o, 'x) nb" where
  "analysis_2_cell_9 L =
     nb_bind (module_attr L ''u.deg'') (\<lambda>deg.
     nb_bind (binop L ''2.5 * u.deg'' (PyFloat 2.5) deg) (\<lambda>offset_max.
     nb_bind (call L ''MapDatasetMaker'' []) (\<lambda>maker.
     nb_bind (call L ''SafeMaskMaker''
        [Kw ''methods'' (PyList [PyStr ''offset-max'']), Kw ''offset_max'' offset_max])
       (\<lambda>maker_safe_mask.
     nb_return (offset_max, maker, maker_safe_mask)))))"

text \<open>
  \<^verbatim>\<open>circle = CircleSkyRegion(center=SkyCoord("83.63 deg", "22.14 deg"), radius=0.2 * u.deg)\<close>
  \<^verbatim>\<open>data = geom.region_mask(regions=[circle], inside=False)\<close>
  \<^verbatim>\<open>exclusion_mask = Map.from_geom(geom=geom, data=data)\<close>
  \<^verbatim>\<open>maker_fov = FoVBackgroundMaker(method="fit", exclusion_mask=exclusion_mask)\<close>
\<close>

definition analysis_2_cell_10 :: "('o, 'x) library \<Rightarrow> 'o pyval \<Rightarrow> ('o pyval, 'o, 'x) nb" where
  "analysis_2_cell_10 L geom =
     nb_bind (call L ''SkyCoord'' [Pos (PyStr ''83.63 deg''), Pos (PyStr ''22.14 deg'')])
       (\<lambda>center.
     nb_bind (module_attr L ''u.deg'') (\<lambda>deg.
     nb_bind (binop L ''0.2 * u.deg'' (PyFloat 0.2) deg) (\<lambda>radius.
     nb_bind (call L ''CircleSkyRegion'' [Kw ''center'' center, Kw ''radius'' radius])
       (\<lambda>circle.
     nb_bind (call L ''geom.region_mask''
        [Pos geom, Kw ''regions'' (PyList [circle]), Kw ''inside'' (PyBool False)])
       (\<lambda>data.
     nb_bind (call L ''Map.from_geom'' [Kw ''geom'' geom, Kw ''data'' data])
       (\<lambda>exclusion_mask.
     call L ''FoVBackgroundMaker''
       [Kw ''method'' (PyStr ''fit''), Kw ''exclusion_mask'' exclusion_mask]))))))"

text \<open>
  The body of the data reduction loop, for one observation:
  \<^verbatim>\<open>cutout = stacked.cutout(obs.pointing_radec, width=2 * offset_max)\<close>
  \<^verbatim>\<open>dataset = maker.run(cutout, obs)\<close>
  \<^verbatim>\<open>dataset = maker_fov.run(dataset)\<close>
  \<^verbatim>\<open>print(f"Background norm obs {obs.obs_id}: {dataset.background_model.norm.value:.2f}")\<close>
  \<^verbatim>\<open>dataset = maker_safe_mask.run(dataset, obs)\<close>
  \<^verbatim>\<open>stacked.stack(dataset)\<close>
  A method call passes its receiver as the first positional argument.
\<close>

definition reduction_step ::
  "('o, 'x) library \<Rightarrow> 'o pyval \<Rightarrow> 'o pyval \<Rightarrow> 'o pyval \<Rightarrow> 'o pyval \<Rightarrow> 'o pyval \<Rightarrow> 'o pyval
     \<Rightarrow> ('o pyval, 'o, 'x) nb" where
  "reduction_step L stacked offset_max maker maker_fov maker_safe_mask obs =
     nb_bind (getattr L ''obs.pointing_radec'' obs) (\<lambda>pointing_radec.
     nb_bind (binop L ''2 * offset_max'' (PyInt 2) offset_max) (\<lambda>width.
     nb_bind (call L ''stacked.cutout'' [Pos stacked, Pos pointing_radec, Kw ''width'' width])
       (\<lambda>cutout.
     nb_bind (call L ''maker.run'' [Pos maker, Pos cutout, Pos obs]) (\<lambda>dataset.
     nb_bind (call L ''maker_fov.run'' [Pos maker_fov, Pos dataset]) (\<lambda>dataset.
     nb_bind (getattr L ''obs.obs_id'' obs) (\<lambda>obs_id.
     nb_bind (getattr L ''dataset.background_model'' dataset) (\<lambda>background_model.
     nb_bind (getattr L ''dataset.background_model.norm'' background_model) (\<lambda>norm.
     nb_bind (getattr L ''dataset.background_model.norm.value'' norm) (\<lambda>norm_value.
     nb_bind (step L Format ''Background norm obs {obs.obs_id}: {dataset.background_model.norm.value:.2f}''
                [Pos obs_id, Pos norm_value]) (\<lambda>line.
     nb_bind (call L ''print'' [Pos line]) (\<lambda>_.
     nb_bind (call L ''maker_safe_mask.run'' [Pos maker_safe_mask, Pos dataset, Pos obs])
       (\<lambda>dataset.
     call L ''stacked.stack'' [Pos stacked, Pos dataset]))))))))))))"

text \<open>\<^verbatim>\<open>%%time\<close>, then \<^verbatim>\<open>for obs in observations:\<close> over the body above.\<close>

definition reduction_loop ::
  "('o, 'x) library \<Rightarrow> 'o pyval \<Rightarrow> 'o pyval \<Rightarrow> 'o pyval \<Rightarrow> 'o pyval \<Rightarrow> 'o pyval \<Rightarrow> 'o pyval
     \<Rightarrow> (unit, 'o, 'x) nb" where
  "reduction_loop L observations stacked offset_max maker maker_fov maker_safe_mask =
     nb_bind (iterate L ''observations'' observations) (\<lambda>items.
     for_each items (reduction_step L stacked offset_max maker maker_fov maker_safe_mask))"

definition analysis_2_cell_11 ::
  "('o, 'x) library \<Rightarrow> 'o pyval \<Rightarrow> 'o pyval \<Rightarrow> 'o pyval \<Rightarrow> 'o pyval \<Rightarrow> 'o pyval \<Rightarrow> 'o pyval
     \<Rightarrow> (unit, 'o, 'x) nb" where
  "analysis_2_cell_11 L observations stacked offset_max maker maker_fov maker_safe_mask =
     nb_seq (magic L ''%%time'')
            (reduction_loop L observations stacked offset_max maker maker_fov maker_safe_mask)"

text \<open>\<^verbatim>\<open>stacked.counts.sum_over_axes().smooth(0.05 * u.deg).plot(stretch="sqrt", add_cbar=True)\<close>\<close>

definition analysis_2_cell_12 :: "('o, 'x) library \<Rightarrow> 'o pyval \<Rightarrow> ('o pyval, 'o, 'x) nb" where
  "analysis_2_cell_12 L stacked =
     nb_bind (getattr L ''stacked.counts'' stacked) (\<lambda>counts.
     nb_bind (call L ''stacked.counts.sum_over_axes'' [Pos counts]) (\<lambda>summed.
     nb_bind (module_attr L ''u.deg'') (\<lambda>deg.
     nb_bind (binop L ''0.05 * u.deg'' (PyFloat 0.05) deg) (\<lambda>width.
     nb_bind (call L ''stacked.counts.sum_over_axes().smooth'' [Pos summed, Pos width])
       (\<lambda>smoothed.
     call L ''stacked.counts.sum_over_axes().smooth(...).plot''
       [Pos smoothed, Kw ''stretch'' (PyStr ''sqrt''), Kw ''add_cbar'' (PyBool True)])))))"

text \<open>\<^verbatim>\<open>path = Path("analysis_2"); path.mkdir(exist_ok=True)\<close>\<close>

definition analysis_2_cell_13 :: "(pypath, 'o, 'x) nb" where
  "analysis_2_cell_13 =
     (let path = Path ''analysis_2'' in
      nb_bind (path_mkdir path True) (\<lambda>_. nb_return path))"

text \<open>
  \<^verbatim>\<open>filename = path / "crab-stacked-dataset.fits.gz"\<close>
  \<^verbatim>\<open>stacked.write(filename, overwrite=True)\<close>
\<close>

definition analysis_2_cell_14 ::
  "('o, 'x) library \<Rightarrow> pypath \<Rightarrow> 'o pyval \<Rightarrow> ('o pyval, 'o, 'x) nb" where
  "analysis_2_cell_14 L path stacked =
     (let filename = path_div path ''crab-stacked-dataset.fits.gz'' in
      dataset_write L ''stacked.write'' stacked filename True)"

text \<open>
  \<^verbatim>\<open>target_position = SkyCoord(ra=83.63308, dec=22.01450, unit="deg")\<close>
  \<^verbatim>\<open>spatial_model = PointSpatialModel(lon_0=target_position.ra, lat_0=target_position.dec, frame="icrs")\<close>
  \<^verbatim>\<open>spectral_model = PowerLawSpectralModel(index=2.702, amplitude=4.712e-11 * u.Unit("1 / (cm2 s TeV)"), reference=1 * u.TeV)\<close>
  \<^verbatim>\<open>sky_model = SkyModel(spatial_model=spatial_model, spectral_model=spectral_model, name="crab")\<close>
\<close>

definition analysis_2_cell_15 :: "('o, 'x) library \<Rightarrow> ('o pyval, 'o, 'x) nb" where
  "analysis_2_cell_15 L =
     nb_bind (call L ''SkyCoord''
        [Kw ''ra'' (PyFloat 83.63308), Kw ''dec'' (PyFloat 22.01450), Kw ''unit'' (PyStr ''deg'')])
       (\<lambda>target_position.
     nb_bind (getattr L ''target_position.ra'' target_position) (\<lambda>ra.
     nb_bind (getattr L ''target_position.dec'' target_position) (\<lambda>dec.
     nb_bind (call L ''PointSpatialModel''
        [Kw ''lon_0'' ra, Kw ''lat_0'' dec, Kw ''frame'' (PyStr ''icrs'')])
       (\<lambda>spatial_model.
     nb_bind (call L ''u.Unit'' [Pos (PyStr ''1 / (cm2 s TeV)'')]) (\<lambda>unit.
     nb_bind (binop L ''4.712e-11 * u.Unit(...)'' (PyFloat (4.712 / 10 ^ 11)) unit) (\<lambda>amplitude.
     nb_bind (module_attr L ''u.TeV'') (\<lambda>TeV.
     nb_bind (binop L ''1 * u.TeV'' (PyInt 1) TeV) (\<lambda>reference.
     nb_bind (call L ''PowerLawSpectralModel''
        [Kw ''index'' (PyFloat 2.702), Kw ''amplitude'' amplitude, Kw ''reference'' reference])
       (\<lambda>spectral_model.
     call L ''SkyModel''
       [Kw ''spatial_model'' spatial_model, Kw ''spectral_model'' spectral_model,
        Kw ''name'' (PyStr ''crab'')])))))))))"

text \<open>\<^verbatim>\<open>stacked.models = sky_model\<close>\<close>

definition analysis_2_cell_16 ::
  "('o, 'x) library \<Rightarrow> 'o pyval \<Rightarrow> 'o pyval \<Rightarrow> ('o pyval, 'o, 'x) nb" where
  "analysis_2_cell_16 L stacked sky_model = setattr L ''stacked.models'' stacked sky_model"

text \<open>
  \<^verbatim>\<open>%%time\<close>
  \<^verbatim>\<open>fit = Fit([stacked])\<close>
  \<^verbatim>\<open>result = fit.run(optimize_opts={"print_level": 1})\<close>
\<close>

definition analysis_2_cell_17 ::
  "('o, 'x) library \<Rightarrow> 'o pyval \<Rightarrow> ('o pyval \<times> 'o pyval, 'o, 'x) nb" where
  "analysis_2_cell_17 L stacked =
     nb_seq (magic L ''%%time'')
    (nb_bind (call L ''Fit'' [Pos (PyList [stacked])]) (\<lambda>fit.
     nb_bind (call L ''fit.run''
        [Pos fit, Kw ''optimize_opts'' (PyDict [(''print_level'', PyInt 1)])])
       (\<lambda>result.
     nb_return (fit, result))))"

text \<open>\<^verbatim>\<open>result.parameters.to_table()\<close>\<close>

definition analysis_2_cell_18 :: "('o, 'x) library \<Rightarrow> 'o pyval \<Rightarrow> ('o pyval, 'o, 'x) nb" where
  "analysis_2_cell_18 L result =
     nb_bind (getattr L ''result.parameters'' result) (\<lambda>parameters.
     call L ''result.parameters.to_table'' [Pos parameters])"

text \<open>\<^verbatim>\<open>stacked.plot_residuals(method="diff/sqrt(model)", vmin=-0.5, vmax=0.5)\<close>\<close>

definition analysis_2_cell_19 :: "('o, 'x) library \<Rightarrow> 'o pyval \<Rightarrow> ('o pyval, 'o, 'x) nb" where
  "analysis_2_cell_19 L stacked =
     call L ''stacked.plot_residuals''
       [Pos stacked, Kw ''method'' (PyStr ''diff/sqrt(model)''),
        Kw ''vmin'' (PyFloat (- 0.5)), Kw ''vmax'' (PyFloat 0.5)]"

text \<open>\<^verbatim>\<open>region = CircleSkyRegion(center=SkyCoord("83.63 deg", "22.14 deg"), radius=0.5 * u.deg)\<close>\<close>

definition analysis_2_cell_20 :: "('o, 'x) library \<Rightarrow> ('o pyval, 'o, 'x) nb" where
  "analysis_2_cell_20 L =
     nb_bind (call L ''SkyCoord'' [Pos (PyStr ''83.63 deg''), Pos (PyStr ''22.14 deg'')])
       (\<lambda>center.
     nb_bind (module_attr L ''u.deg'') (\<lambda>deg.
     nb_bind (binop L ''0.5 * u.deg'' (PyFloat 0.5) deg) (\<lambda>radius.
     call L ''CircleSkyRegion'' [Kw ''center'' center, Kw ''radius'' radius])))"

text \<open>\<^verbatim>\<open>stacked.plot_residuals(region=region, method="diff/sqrt(model)", vmin=-0.5, vmax=0.5)\<close>\<close>

definition analysis_2_cell_21 ::
  "('o, 'x) library \<Rightarrow> 'o pyval \<Rightarrow> 'o pyval \<Rightarrow> ('o pyval, 'o, 'x) nb" where
  "analysis_2_cell_21 L stacked region =
     call L ''stacked.plot_residuals''
       [Pos stacked, Kw ''region'' region, Kw ''method'' (PyStr ''diff/sqrt(model)''),
        Kw ''vmin'' (PyFloat (- 0.5)), Kw ''vmax'' (PyFloat 0.5)]"

text \<open>
  \<^verbatim>\<open>residuals = stacked.residuals(method="diff")\<close>
  \<^verbatim>\<open>residuals.smooth("0.08 deg").plot_interactive(cmap="coolwarm", vmin=-0.1, vmax=0.1, stretch="linear", add_cbar=True)\<close>
\<close>

definition analysis_2_cell_22 :: "('o, 'x) library \<Rightarrow> 'o pyval \<Rightarrow> ('o pyval, 'o, 'x) nb" where
  "analysis_2_cell_22 L stacked =
     nb_bind (call L ''stacked.residuals'' [Pos stacked, Kw ''method'' (PyStr ''diff'')])
       (\<lambda>residuals.
     nb_bind (call L ''residuals.smooth'' [Pos residuals, Pos (PyStr ''0.08 deg'')])
       (\<lambda>smoothed.
     call L ''residuals.smooth(...).plot_interactive''
       [Pos smoothed, Kw ''cmap'' (PyStr ''coolwarm''), Kw ''vmin'' (PyFloat (- 0.1)),
        Kw ''vmax'' (PyFloat 0.1), Kw ''stretch'' (PyStr ''linear''),
        Kw ''add_cbar'' (PyBool True)]))"

text \<open>\<^verbatim>\<open>profile = fit.stat_profile(parameter="lon_0")\<close>\<close>

definition analysis_2_cell_23 :: "('o, 'x) library \<Rightarrow> 'o pyval \<Rightarrow> ('o pyval, 'o, 'x) nb" where
  "analysis_2_cell_23 L fit =
     call L ''fit.stat_profile'' [Pos fit, Kw ''parameter'' (PyStr ''lon_0'')]"

text \<open>
  \<^verbatim>\<open>total_stat = result.total_stat\<close>
  \<^verbatim>\<open>plt.plot(profile["values"], profile["stat"] - total_stat)\<close>
  \<^verbatim>\<open>plt.xlabel("Lon (deg)")\<close>
  \<^verbatim>\<open>plt.ylabel("Delta TS")\<close>
\<close>

definition analysis_2_cell_24 ::
  "('o, 'x) library \<Rightarrow> 'o pyval \<Rightarrow> 'o pyval \<Rightarrow> ('o pyval, 'o, 'x) nb" where
  "analysis_2_cell_24 L result profile =
     nb_bind (getattr L ''result.total_stat'' result) (\<lambda>total_stat.
     nb_bind (getitem L ''profile[values]'' profile (PyStr ''values'')) (\<lambda>values.
     nb_bind (getitem L ''profile[stat]'' profile (PyStr ''stat'')) (\<lambda>stat.
     nb_bind (binop L ''profile[stat] - total_stat'' stat total_stat) (\<lambda>delta.
     nb_bind (call L ''plt.plot'' [Pos values, Pos delta]) (\<lambda>_.
     nb_bind (call L ''plt.xlabel'' [Pos (PyStr ''Lon (deg)'')]) (\<lambda>_.
     call L ''plt.ylabel'' [Pos (PyStr ''Delta TS'')]))))))"

text \<open>
  \<^verbatim>\<open>spec = sky_model.spectral_model\<close>
  \<^verbatim>\<open>covar = result.parameters.get_subcovariance(spec.parameters)\<close>
  \<^verbatim>\<open>spec.parameters.covariance = covar\<close>
\<close>

definition analysis_2_cell_25 ::
  "('o, 'x) library \<Rightarrow> 'o pyval \<Rightarrow> 'o pyval \<Rightarrow> ('o pyval, 'o, 'x) nb" where
  "analysis_2_cell_25 L sky_model result =
     nb_bind (getattr L ''sky_model.spectral_model'' sky_model) (\<lambda>spec.
     nb_bind (getattr L ''result.parameters'' result) (\<lambda>result_parameters.
     nb_bind (getattr L ''spec.parameters'' spec) (\<lambda>spec_parameters.
     nb_bind (call L ''result.parameters.get_subcovariance''
        [Pos result_parameters, Pos spec_parameters])
       (\<lambda>covar.
     nb_bind (getattr L ''spec.parameters'' spec) (\<lambda>target.
     nb_bind (setattr L ''spec.parameters.covariance'' target covar) (\<lambda>_.
     nb_return spec))))))"

text \<open>
  \<^verbatim>\<open>energy_range = [1, 10] * u.TeV\<close>
  \<^verbatim>\<open>spec.plot(energy_range=energy_range, energy_power=2)\<close>
  \<^verbatim>\<open>ax = spec.plot_error(energy_range=energy_range, energy_power=2)\<close>
\<close>

definition analysis_2_cell_26 :: "('o, 'x) library \<Rightarrow> 'o pyval \<Rightarrow> ('o pyval, 'o, 'x) nb" where
  "analysis_2_cell_26 L spec =
     nb_bind (module_attr L ''u.TeV'') (\<lambda>TeV.
     nb_bind (binop L ''[1, 10] * u.TeV'' (PyList [PyInt 1, PyInt 10]) TeV) (\<lambda>energy_range.
     nb_bind (call L ''spec.plot''
        [Pos spec, Kw ''energy_range'' energy_range, Kw ''energy_power'' (PyInt 2)])
       (\<lambda>_.
     nb_bind (call L ''spec.plot_error''
        [Pos spec, Kw ''energy_range'' energy_range, Kw ''energy_power'' (PyInt 2)])
       (\<lambda>ax.
     nb_return energy_range))))"

text \<open>
  \<^verbatim>\<open>e_edges = [1, 2, 4, 10] * u.TeV\<close>
  \<^verbatim>\<open>fpe = FluxPointsEstimator(datasets=[stacked], e_edges=e_edges, source="crab")\<close>
\<close>

definition analysis_2_cell_27 :: "('o, 'x) library \<Rightarrow> 'o pyval \<Rightarrow> ('o pyval, 'o, 'x) nb" where
  "analysis_2_cell_27 L stacked =
     nb_bind (module_attr L ''u.TeV'') (\<lambda>TeV.
     nb_bind (binop L ''[1, 2, 4, 10] * u.TeV'' (PyList [PyInt 1, PyInt 2, PyInt 4, PyInt 10]) TeV) (\<lambda>e_edges.
     call L ''FluxPointsEstimator''
       [Kw ''datasets'' (PyList [stacked]), Kw ''e_edges'' e_edges,
        Kw ''source'' (PyStr ''crab'')]))"

text \<open>\<^verbatim>\<open>%%time\<close>, \<^verbatim>\<open>flux_points = fpe.run()\<close>\<close>

definition analysis_2_cell_28 :: "('o, 'x) library \<Rightarrow> 'o pyval \<Rightarrow> ('o pyval, 'o, 'x) nb" where
  "analysis_2_cell_28 L fpe =
     nb_seq (magic L ''%%time'') (call L ''fpe.run'' [Pos fpe])"

text \<open>
  \<^verbatim>\<open>ax = spec.plot_error(energy_range=energy_range, energy_power=2)\<close>
  \<^verbatim>\<open>flux_points.plot(ax=ax, energy_power=2)\<close>
\<close>

definition analysis_2_cell_29 ::
  "('o, 'x) library \<Rightarrow> 'o pyval \<Rightarrow> 'o pyval \<Rightarrow> 'o pyval \<Rightarrow> ('o pyval, 'o, 'x) nb" where
  "analysis_2_cell_29 L spec energy_range flux_points =
     nb_bind (call L ''spec.plot_error''
        [Pos spec, Kw ''energy_range'' energy_range, Kw ''energy_power'' (PyInt 2)])
       (\<lambda>ax.
     call L ''flux_points.plot'' [Pos flux_points, Kw ''ax'' ax, Kw ''energy_power'' (PyInt 2)])"

text \<open>The notebook: its code cells from top to bottom, in one kernel.\<close>

definition analysis_2 :: "('o, 'x) library \<Rightarrow> ('o pyval, 'o, 'x) nb" where
  "analysis_2 L =
     nb_seq (analysis_2_cell_1 L)
    (nb_seq (analysis_2_cell_2 L)
    (nb_seq (analysis_2_cell_3 L)
    (nb_bind (analysis_2_cell_4 L) (\<lambda>data_store.
     nb_bind (analysis_2_cell_5 L data_store) (\<lambda>selected_obs_table.
     nb_bind (analysis_2_cell_6 L data_store selected_obs_table) (\<lambda>observations.
     nb_bind (analysis_2_cell_7 L) (\<lambda>(geom, energy_axis_true).
     nb_bind (analysis_2_cell_8 L geom energy_axis_true) (\<lambda>stacked.
     nb_bind (analysis_2_cell_9 L) (\<lambda>(offset_max, maker, maker_safe_mask).
     nb_bind (analysis_2_cell_10 L geom) (\<lambda>maker_fov.
     nb_seq (analysis_2_cell_11 L observations stacked offset_max maker maker_fov maker_safe_mask)
    (nb_seq (analysis_2_cell_12 L stacked)
    (nb_bind analysis_2_cell_13 (\<lambda>path.
     nb_seq (analysis_2_cell_14 L path stacked)
    (nb_bind (analysis_2_cell_15 L) (\<lambda>sky_model.
     nb_seq (analysis_2_cell_16 L stacked sky_model)
    (nb_bind (analysis_2_cell_17 L stacked) (\<lambda>(fit, result).
     nb_seq (analysis_2_cell_18 L result)
    (nb_seq (analysis_2_cell_19 L stacked)
    (nb_bind (analysis_2_cell_20 L) (\<lambda>region.
     nb_seq (analysis_2_cell_21 L stacked region)
    (nb_seq (analysis_2_cell_22 L stacked)
    (nb_bind (analysis_2_cell_23 L fit) (\<lambda>profile.
     nb_seq (analysis_2_cell_24 L result profile)
    (nb_bind (analysis_2_cell_25 L sky_model result) (\<lambda>spec.
     nb_bind (analysis_2_cell_26 L spec) (\<lambda>energy_range.
     nb_bind (analysis_2_cell_27 L stacked) (\<lambda>fpe.
     nb_bind (analysis_2_cell_28 L fpe) (\<lambda>flux_points.
     analysis_2_cell_29 L spec energy_range flux_points))))))))))))))))))))))))))))"

section \<open>The notebook \<^verbatim>\<open>tutorials/sed_fitting.ipynb\<close>\<close>

text \<open>\<^verbatim>\<open>%matplotlib inline\<close>\<close>

definition sed_fitting_cell_1 :: "('o, 'x) library \<Rightarrow> ('o pyval, 'o, 'x) nb" where
  "sed_fitting_cell_1 L = magic L ''%matplotlib inline''"

definition sed_fitting_cell_2 :: "('o, 'x) library \<Rightarrow> ('o pyval, 'o, 'x) nb" where
  "sed_fitting_cell_2 L =
     nb_seq (import_stmt L ''import numpy as np'')
    (nb_seq (import_stmt L ''from astropy import units as u'')
    (nb_seq (import_stmt L
       ''from gammapy.modeling.models import PowerLawSpectralModel, ExpCutoffPowerLawSpectralModel, LogParabolaSpectralModel, SkyModel'')
    (nb_seq (import_stmt L ''from gammapy.spectrum import FluxPointsDataset, FluxPoints'')
    (nb_seq (import_stmt L ''from gammapy.catalog import SOURCE_CATALOGS'')
            (import_stmt L ''from gammapy.modeling import Fit'')))))"

text \<open>
  \<^verbatim>\<open>catalog_3fgl = SOURCE_CATALOGS["3fgl"]()\<close>
  \<^verbatim>\<open>catalog_3fhl = SOURCE_CATALOGS["3fhl"]()\<close>
  \<^verbatim>\<open>catalog_gammacat = SOURCE_CATALOGS["gamma-cat"]()\<close>
\<close>

definition sed_fitting_cell_3 ::
  "('o, 'x) library \<Rightarrow> ('o pyval \<times> 'o pyval \<times> 'o pyval, 'o, 'x) nb" where
  "sed_fitting_cell_3 L =
     nb_bind (step L GetItem ''SOURCE_CATALOGS[3fgl]'' [Pos (PyStr ''3fgl'')]) (\<lambda>cls_3fgl.
     nb_bind (call L ''SOURCE_CATALOGS[3fgl]()'' [Pos cls_3fgl]) (\<lambda>catalog_3fgl.
     nb_bind (step L GetItem ''SOURCE_CATALOGS[3fhl]'' [Pos (PyStr ''3fhl'')]) (\<lambda>cls_3fhl.
     nb_bind (call L ''SOURCE_CATALOGS[3fhl]()'' [Pos cls_3fhl]) (\<lambda>catalog_3fhl.
     nb_bind (step L GetItem ''SOURCE_CATALOGS[gamma-cat]'' [Pos (PyStr ''gamma-cat'')])
       (\<lambda>cls_gammacat.
     nb_bind (call L ''SOURCE_CATALOGS[gamma-cat]()'' [Pos cls_gammacat]) (\<lambda>catalog_gammacat.
     nb_return (catalog_3fgl, catalog_3fhl, catalog_gammacat)))))))"

text \<open>
  \<^verbatim>\<open>source_fermi_3fgl = catalog_3fgl["3FGL J1506.6-6219"]\<close>
  \<^verbatim>\<open>source_fermi_3fhl = catalog_3fhl["3FHL J1507.9-6228e"]\<close>
  \<^verbatim>\<open>source_gammacat = catalog_gammacat["HESS J1507-622"]\<close>
\<close>

definition sed_fitting_cell_4 ::
  "('o, 'x) library \<Rightarrow> 'o pyval \<Rightarrow> 'o pyval \<Rightarrow> 'o pyval
     \<Rightarrow> ('o pyval \<times> 'o pyval \<times> 'o pyval, 'o, 'x) nb" where
  "sed_fitting_cell_4 L catalog_3fgl catalog_3fhl catalog_gammacat =
     nb_bind (getitem L ''catalog_3fgl[3FGL J1506.6-6219]'' catalog_3fgl
                (PyStr ''3FGL J1506.6-6219'')) (\<lambda>source_fermi_3fgl.
     nb_bind (getitem L ''catalog_3fhl[3FHL J1507.9-6228e]'' catalog_3fhl
                (PyStr ''3FHL J1507.9-6228e'')) (\<lambda>source_fermi_3fhl.
     nb_bind (getitem L ''catalog_gammacat[HESS J1507-622]'' catalog_gammacat
                (PyStr ''HESS J1507-622'')) (\<lambda>source_gammacat.
     nb_return (source_fermi_3fgl, source_fermi_3fhl, source_gammacat))))"

text \<open>
  \<^verbatim>\<open>flux_points_gammacat = source_gammacat.flux_points\<close>
  \<^verbatim>\<open>flux_points_gammacat.table\<close>
\<close>

definition sed_fitting_cell_5 :: "('o, 'x) library \<Rightarrow> 'o pyval \<Rightarrow> ('o pyval, 'o, 'x) nb" where
  "sed_fitting_cell_5 L source_gammacat =
     nb_bind (getattr L ''source_gammacat.flux_points'' source_gammacat)
       (\<lambda>flux_points_gammacat.
     nb_bind (getattr L ''flux_points_gammacat.table'' flux_points_gammacat) (\<lambda>_.
     nb_return flux_points_gammacat))"

text \<open>
  \<^verbatim>\<open>flux_points_3fgl = source_fermi_3fgl.flux_points.to_sed_type(sed_type="dnde", model=source_fermi_3fgl.spectral_model())\<close>
  \<^verbatim>\<open>flux_points_3fhl = source_fermi_3fhl.flux_points.to_sed_type(sed_type="dnde", model=source_fermi_3fhl.spectral_model())\<close>
\<close>

definition sed_fitting_cell_6 ::
  "('o, 'x) library \<Rightarrow> 'o pyval \<Rightarrow> 'o pyval \<Rightarrow> ('o pyval \<times> 'o pyval, 'o, 'x) nb" where
  "sed_fitting_cell_6 L source_fermi_3fgl source_fermi_3fhl =
     nb_bind (getattr L ''source_fermi_3fgl.flux_points'' source_fermi_3fgl) (\<lambda>points_3fgl.
     nb_bind (call L ''source_fermi_3fgl.spectral_model'' [Pos source_fermi_3fgl])
       (\<lambda>model_3fgl.
     nb_bind (call L ''source_fermi_3fgl.flux_points.to_sed_type''
        [Pos points_3fgl, Kw ''sed_type'' (PyStr ''dnde''), Kw ''model'' model_3fgl])
       (\<lambda>flux_points_3fgl.
     nb_bind (getattr L ''source_fermi_3fhl.flux_points'' source_fermi_3fhl) (\<lambda>points_3fhl.
     nb_bind (call L ''source_fermi_3fhl.spectral_model'' [Pos source_fermi_3fhl])
       (\<lambda>model_3fhl.
     nb_bind (call L ''source_fermi_3fhl.flux_points.to_sed_type''
        [Pos points_3fhl, Kw ''sed_type'' (PyStr ''dnde''), Kw ''model'' model_3fhl])
       (\<lambda>flux_points_3fhl.
     nb_return (flux_points_3fgl, flux_points_3fhl)))))))"

text \<open>
  \<^verbatim>\<open>flux_points = FluxPoints.stack([flux_points_gammacat, flux_points_3fhl, flux_points_3fgl])\<close>
  \<^verbatim>\<open>t = flux_points.table\<close>
  \<^verbatim>\<open>t["dnde_err"] = 0.5 * (t["dnde_errn"] + t["dnde_errp"])\<close>
  \<^verbatim>\<open>is_ul = np.isfinite(t["dnde_err"])\<close>
  \<^verbatim>\<open>flux_points = FluxPoints(t[is_ul])\<close>
  \<^verbatim>\<open>flux_points\<close>
\<close>

definition sed_fitting_cell_7 ::
  "('o, 'x) library \<Rightarrow> 'o pyval \<Rightarrow> 'o pyval \<Rightarrow> 'o pyval \<Rightarrow> ('o pyval, 'o, 'x) nb" where
  "sed_fitting_cell_7 L flux_points_gammacat flux_points_3fhl flux_points_3fgl =
     nb_bind (call L ''FluxPoints.stack''
        [Pos (PyList [flux_points_gammacat, flux_points_3fhl, flux_points_3fgl])])
       (\<lambda>flux_points.
     nb_bind (getattr L ''flux_points.table'' flux_points) (\<lambda>t.
     nb_bind (getitem L ''t[dnde_errn]'' t (PyStr ''dnde_errn'')) (\<lambda>errn.
     nb_bind (getitem L ''t[dnde_errp]'' t (PyStr ''dnde_errp'')) (\<lambda>errp.
     nb_bind (binop L ''t[dnde_errn] + t[dnde_errp]'' errn errp) (\<lambda>total.
     nb_bind (binop L ''0.5 * (t[dnde_errn] + t[dnde_errp])'' (PyFloat 0.5) total) (\<lambda>mean.
     nb_bind (setitem L ''t[dnde_err]'' t (PyStr ''dnde_err'') mean) (\<lambda>_.
     nb_bind (getitem L ''t[dnde_err]'' t (PyStr ''dnde_err'')) (\<lambda>err.
     nb_bind (call L ''np.isfinite'' [Pos err]) (\<lambda>is_ul.
     nb_bind (getitem L ''t[is_ul]'' t is_ul) (\<lambda>selected.
     call L ''FluxPoints'' [Pos selected]))))))))))"

text \<open>
  \<^verbatim>\<open>pwl = PowerLawSpectralModel(index=2, amplitude="1e-12 cm-2 s-1 TeV-1", reference="1 TeV")\<close>
  \<^verbatim>\<open>model = SkyModel(spectral_model=pwl)\<close>
\<close>

definition sed_fitting_cell_8 :: "('o, 'x) library \<Rightarrow> ('o pyval \<times> 'o pyval, 'o, 'x) nb" where
  "sed_fitting_cell_8 L =
     nb_bind (call L ''PowerLawSpectralModel''
        [Kw ''index'' (PyInt 2), Kw ''amplitude'' (PyStr ''1e-12 cm-2 s-1 TeV-1''),
         Kw ''reference'' (PyStr ''1 TeV'')])
       (\<lambda>pwl.
     nb_bind (call L ''SkyModel'' [Kw ''spectral_model'' pwl]) (\<lambda>model.
     nb_return (pwl, model)))"

text \<open>
  \<^verbatim>\<open>dataset_pwl = FluxPointsDataset(model, flux_points)\<close>
  \<^verbatim>\<open>fitter = Fit([dataset_pwl])\<close>
  \<^verbatim>\<open>result_pwl = fitter.run()\<close>
\<close>

definition sed_fitting_cell_9 ::
  "('o, 'x) library \<Rightarrow> 'o pyval \<Rightarrow> 'o pyval \<Rightarrow> ('o pyval, 'o, 'x) nb" where
  "sed_fitting_cell_9 L model flux_points =
     nb_bind (call L ''FluxPointsDataset'' [Pos model, Pos flux_points]) (\<lambda>dataset_pwl.
     nb_bind (call L ''Fit'' [Pos (PyList [dataset_pwl])]) (\<lambda>fitter.
     call L ''fitter.run'' [Pos fitter]))"

text \<open>\<^verbatim>\<open>print(result_pwl)\<close>\<close>

definition sed_fitting_cell_10 :: "('o, 'x) library \<Rightarrow> 'o pyval \<Rightarrow> ('o pyval, 'o, 'x) nb" where
  "sed_fitting_cell_10 L result_pwl = call L ''print'' [Pos result_pwl]"

text \<open>\<^verbatim>\<open>print(pwl)\<close>\<close>

definition sed_fitting_cell_11 :: "('o, 'x) library \<Rightarrow> 'o pyval \<Rightarrow> ('o pyval, 'o, 'x) nb" where
  "sed_fitting_cell_11 L pwl = call L ''print'' [Pos pwl]"

text \<open>
  \<^verbatim>\<open>ax = flux_points.plot(energy_power=2)\<close>
  \<^verbatim>\<open>pwl.plot(energy_range=[1e-4, 1e2] * u.TeV, ax=ax, energy_power=2)\<close>
  \<^verbatim>\<open>pwl.parameters.covariance = result_pwl.parameters.covariance\<close>
  \<^verbatim>\<open>pwl.plot_error(energy_range=[1e-4, 1e2] * u.TeV, ax=ax, energy_power=2)\<close>
  \<^verbatim>\<open>ax.set_ylim(1e-13, 1e-11)\<close>
\<close>

definition sed_fitting_cell_12 ::
  "('o, 'x) library \<Rightarrow> 'o pyval \<Rightarrow> 'o pyval \<Rightarrow> 'o pyval \<Rightarrow> ('o pyval, 'o, 'x) nb" where
  "sed_fitting_cell_12 L flux_points pwl result_pwl =
     nb_bind (call L ''flux_points.plot'' [Pos flux_points, Kw ''energy_power'' (PyInt 2)])
       (\<lambda>ax.
     nb_bind (module_attr L ''u.TeV'') (\<lambda>TeV.
     nb_bind (binop L ''[1e-4, 1e2] * u.TeV'' (PyList [PyFloat (1 / 10 ^ 4), PyFloat (10 ^ 2)]) TeV)
       (\<lambda>energy_range.
     nb_bind (call L ''pwl.plot''
        [Pos pwl, Kw ''energy_range'' energy_range, Kw ''ax'' ax,
         Kw ''energy_power'' (PyInt 2)])
       (\<lambda>_.
     nb_bind (getattr L ''result_pwl.parameters'' result_pwl) (\<lambda>result_parameters.
     nb_bind (getattr L ''result_pwl.parameters.covariance'' result_parameters)
       (\<lambda>covariance.
     nb_bind (getattr L ''pwl.parameters'' pwl) (\<lambda>target.
     nb_bind (setattr L ''pwl.parameters.covariance'' target covariance) (\<lambda>_.
     nb_bind (module_attr L ''u.TeV'') (\<lambda>TeV.
     nb_bind (binop L ''[1e-4, 1e2] * u.TeV'' (PyList [PyFloat (1 / 10 ^ 4), PyFloat (10 ^ 2)]) TeV)
       (\<lambda>energy_range.
     nb_bind (call L ''pwl.plot_error''
        [Pos pwl, Kw ''energy_range'' energy_range, Kw ''ax'' ax,
         Kw ''energy_power'' (PyInt 2)])
       (\<lambda>_.
     call L ''ax.set_ylim'' [Pos ax, Pos (PyFloat (1 / 10 ^ 13)), Pos (PyFloat (1 / 10 ^ 11))])))))))))))"

text \<open>
  \<^verbatim>\<open>ecpl = ExpCutoffPowerLawSpectralModel(index=1.8, amplitude="2e-12 cm-2 s-1 TeV-1", reference="1 TeV", lambda_="0.1 TeV-1")\<close>
  \<^verbatim>\<open>model = SkyModel(spectral_model=ecpl)\<close>
\<close>

definition sed_fitting_cell_13 :: "('o, 'x) library \<Rightarrow> ('o pyval \<times> 'o pyval, 'o, 'x) nb" where
  "sed_fitting_cell_13 L =
     nb_bind (call L ''ExpCutoffPowerLawSpectralModel''
        [Kw ''index'' (PyFloat 1.8), Kw ''amplitude'' (PyStr ''2e-12 cm-2 s-1 TeV-1''),
         Kw ''reference'' (PyStr ''1 TeV''), Kw ''lambda_'' (PyStr ''0.1 TeV-1'')])
       (\<lambda>ecpl.
     nb_bind (call L ''SkyModel'' [Kw ''spectral_model'' ecpl]) (\<lambda>model.
     nb_return (ecpl, model)))"

text \<open>
  \<^verbatim>\<open>dataset_ecpl = FluxPointsDataset(model, flux_points)\<close>
  \<^verbatim>\<open>fitter = Fit([dataset_ecpl])\<close>
  \<^verbatim>\<open>result_ecpl = fitter.run()\<close>
  \<^verbatim>\<open>print(ecpl)\<close>
\<close>

definition sed_fitting_cell_14 ::
  "('o, 'x) library \<Rightarrow> 'o pyval \<Rightarrow> 'o pyval \<Rightarrow> 'o pyval \<Rightarrow> ('o pyval, 'o, 'x) nb" where
  "sed_fitting_cell_14 L ecpl model flux_points =
     nb_bind (call L ''FluxPointsDataset'' [Pos model, Pos flux_points]) (\<lambda>dataset_ecpl.
     nb_bind (call L ''Fit'' [Pos (PyList [dataset_ecpl])]) (\<lambda>fitter.
     nb_bind (call L ''fitter.run'' [Pos fitter]) (\<lambda>result_ecpl.
     nb_bind (call L ''print'' [Pos ecpl]) (\<lambda>_.
     nb_return result_ecpl))))"

text \<open>
  \<^verbatim>\<open>ax = flux_points.plot(energy_power=2)\<close>
  \<^verbatim>\<open>ecpl.plot(energy_range=[1e-4, 1e2] * u.TeV, ax=ax, energy_power=2)\<close>
  \<^verbatim>\<open>ecpl.parameters.covariance = result_ecpl.parameters.covariance\<close>
  \<^verbatim>\<open>ecpl.plot_error(energy_range=[1e-4, 1e2] * u.TeV, ax=ax, energy_power=2)\<close>
  \<^verbatim>\<open>ax.set_ylim(1e-13, 1e-11)\<close>
\<close>

definition sed_fitting_cell_15 ::
  "('o, 'x) library \<Rightarrow> 'o pyval \<Rightarrow> 'o pyval \<Rightarrow> 'o pyval \<Rightarrow> ('o pyval, 'o, 'x) nb" where
  "sed_fitting_cell_15 L flux_points ecpl result_ecpl =
     nb_bind (call L ''flux_points.plot'' [Pos flux_points, Kw ''energy_power'' (PyInt 2)])
       (\<lambda>ax.
     nb_bind (module_attr L ''u.TeV'') (\<lambda>TeV.
     nb_bind (binop L ''[1e-4, 1e2] * u.TeV'' (PyList [PyFloat (1 / 10 ^ 4), PyFloat (10 ^ 2)]) TeV)
       (\<lambda>energy_range.
     nb_bind (call L ''ecpl.plot''
        [Pos ecpl, Kw ''energy_range'' energy_range, Kw ''ax'' ax,
         Kw ''energy_power'' (PyInt 2)])
       (\<lambda>_.
     nb_bind (getattr L ''result_ecpl.parameters'' result_ecpl) (\<lambda>result_parameters.
     nb_bind (getattr L ''result_ecpl.parameters.covariance'' result_parameters)
       (\<lambda>covariance.
     nb_bind (getattr L ''ecpl.parameters'' ecpl) (\<lambda>target.
     nb_bind (setattr L ''ecpl.parameters.covariance'' target covariance) (\<lambda>_.
     nb_bind (module_attr L ''u.TeV'') (\<lambda>TeV.
     nb_bind (binop L ''[1e-4, 1e2] * u.TeV'' (PyList [PyFloat (1 / 10 ^ 4), PyFloat (10 ^ 2)]) TeV)
       (\<lambda>energy_range.
     nb_bind (call L ''ecpl.plot_error''
        [Pos ecpl, Kw ''energy_range'' energy_range, Kw ''ax'' ax,
         Kw ''energy_power'' (PyInt 2)])
       (\<lambda>_.
     call L ''ax.set_ylim'' [Pos ax, Pos (PyFloat (1 / 10 ^ 13)), Pos (PyFloat (1 / 10 ^ 11))])))))))))))"

text \<open>
  \<^verbatim>\<open>log_parabola = LogParabolaSpectralModel(alpha=2, amplitude="1e-12 cm-2 s-1 TeV-1", reference="1 TeV", beta=0.1)\<close>
  \<^verbatim>\<open>model = SkyModel(spectral_model=log_parabola)\<close>
\<close>

definition sed_fitting_cell_16 :: "('o, 'x) library \<Rightarrow> ('o pyval \<times> 'o pyval, 'o, 'x) nb" where
  "sed_fitting_cell_16 L =
     nb_bind (call L ''LogParabolaSpectralModel''
        [Kw ''alpha'' (PyInt 2), Kw ''amplitude'' (PyStr ''1e-12 cm-2 s-1 TeV-1''),
         Kw ''reference'' (PyStr ''1 TeV''), Kw ''beta'' (PyFloat 0.1)])
       (\<lambda>log_parabola.
     nb_bind (call L ''SkyModel'' [Kw ''spectral_model'' log_parabola]) (\<lambda>model.
     nb_return (log_parabola, model)))"

text \<open>
  \<^verbatim>\<open>dataset_log_parabola = FluxPointsDataset(model, flux_points)\<close>
  \<^verbatim>\<open>fitter = Fit([dataset_log_parabola])\<close>
  \<^verbatim>\<open>result_log_parabola = fitter.run()\<close>
  \<^verbatim>\<open>print(log_parabola)\<close>
\<close>

definition sed_fitting_cell_17 ::
  "('o, 'x) library \<Rightarrow> 'o pyval \<Rightarrow> 'o pyval \<Rightarrow> 'o pyval \<Rightarrow> ('o pyval, 'o, 'x) nb" where
  "sed_fitting_cell_17 L log_parabola model flux_points =
     nb_bind (call L ''FluxPointsDataset'' [Pos model, Pos flux_points]) (\<lambda>dataset_log_parabola.
     nb_bind (call L ''Fit'' [Pos (PyList [dataset_log_parabola])]) (\<lambda>fitter.
     nb_bind (call L ''fitter.run'' [Pos fitter]) (\<lambda>result_log_parabola.
     nb_bind (call L ''print'' [Pos log_parabola]) (\<lambda>_.
     nb_return result_log_parabola))))"

text \<open>
  \<^verbatim>\<open>ax = flux_points.plot(energy_power=2)\<close>
  \<^verbatim>\<open>log_parabola.plot(energy_range=[1e-4, 1e2] * u.TeV, ax=ax, energy_power=2)\<close>
  \<^verbatim>\<open>log_parabola.parameters.covariance = result_log_parabola.parameters.covariance\<close>
  \<^verbatim>\<open>log_parabola.plot_error(energy_range=[1e-4, 1e2] * u.TeV, ax=ax, energy_power=2)\<close>
  \<^verbatim>\<open>ax.set_ylim(1e-13, 1e-11)\<close>
\<close>

definition sed_fitting_cell_18 ::
  "('o, 'x) library \<Rightarrow> 'o pyval \<Rightarrow> 'o pyval \<Rightarrow> 'o pyval \<Rightarrow> ('o pyval, 'o, 'x) nb" where
  "sed_fitting_cell_18 L flux_points log_parabola result_log_parabola =
     nb_bind (call L ''flux_points.plot'' [Pos flux_points, Kw ''energy_power'' (PyInt 2)])
       (\<lambda>ax.
     nb_bind (module_attr L ''u.TeV'') (\<lambda>TeV.
     nb_bind (binop L ''[1e-4, 1e2] * u.TeV'' (PyList [PyFloat (1 / 10 ^ 4), PyFloat (10 ^ 2)]) TeV)
       (\<lambda>energy_range.
     nb_bind (call L ''log_parabola.plot''
        [Pos log_parabola, Kw ''energy_range'' energy_range, Kw ''ax'' ax,
         Kw ''energy_power'' (PyInt 2)])
       (\<lambda>_.
     nb_bind (getattr L ''result_log_parabola.parameters'' result_log_parabola) (\<lambda>result_parameters.
     nb_bind (getattr L ''result_log_parabola.parameters.covariance'' result_parameters)
       (\<lambda>covariance.
     nb_bind (getattr L ''log_parabola.parameters'' log_parabola) (\<lambda>target.
     nb_bind (setattr L ''log_parabola.parameters.covariance'' target covariance) (\<lambda>_.
     nb_bind (module_attr L ''u.TeV'') (\<lambda>TeV.
     nb_bind (binop L ''[1e-4, 1e2] * u.TeV'' (PyList [PyFloat (1 / 10 ^ 4), PyFloat (10 ^ 2)]) TeV)
       (\<lambda>energy_range.
     nb_bind (call L ''log_parabola.plot_error''
        [Pos log_parabola, Kw ''energy_range'' energy_range, Kw ''ax'' ax,
         Kw ''energy_power'' (PyInt 2)])
       (\<lambda>_.
     call L ''ax.set_ylim'' [Pos ax, Pos (PyFloat (1 / 10 ^ 13)), Pos (PyFloat (1 / 10 ^ 11))])))))))))))"

text \<open>The last code cell is empty.\<close>

definition sed_fitting_cell_19 :: "('o pyval, 'o, 'x) nb" where
  "sed_fitting_cell_19 = nb_return PyNone"

text \<open>The notebook: its code cells from top to bottom, in one kernel.\<close>

definition sed_fitting :: "('o, 'x) library \<Rightarrow> ('o pyval, 'o, 'x) nb" where
  "sed_fitting L =
     nb_seq (sed_fitting_cell_1 L)
    (nb_seq (sed_fitting_cell_2 L)
    (nb_bind (sed_fitting_cell_3 L) (\<lambda>(catalog_3fgl, catalog_3fhl, catalog_gammacat).
     nb_bind (sed_fitting_cell_4 L catalog_3fgl catalog_3fhl catalog_gammacat)
       (\<lambda>(source_fermi_3fgl, source_fermi_3fhl, source_gammacat).
     nb_bind (sed_fitting_cell_5 L source_gammacat) (\<lambda>flux_points_gammacat.
     nb_bind (sed_fitting_cell_6 L source_fermi_3fgl source_fermi_3fhl)
       (\<lambda>(flux_points_3fgl, flux_points_3fhl).
     nb_bind (sed_fitting_cell_7 L flux_points_gammacat flux_points_3fhl flux_points_3fgl)
       (\<lambda>flux_points.
     nb_bind (sed_fitting_cell_8 L) (\<lambda>(pwl, model).
     nb_bind (sed_fitting_cell_9 L model flux_points) (\<lambda>result_pwl.
     nb_seq (sed_fitting_cell_10 L result_pwl)
    (nb_seq (sed_fitting_cell_11 L pwl)
    (nb_seq (sed_fitting_cell_12 L flux_points pwl result_pwl)
    (nb_bind (sed_fitting_cell_13 L) (\<lambda>(ecpl, model).
     nb_bind (sed_fitting_cell_14 L ecpl model flux_points) (\<lambda>result_ecpl.
     nb_seq (sed_fitting_cell_15 L flux_points ecpl result_ecpl)
    (nb_bind (sed_fitting_cell_16 L) (\<lambda>(log_parabola, model).
     nb_bind (sed_fitting_cell_17 L log_parabola model flux_points) (\<lambda>result_log_parabola.
     nb_seq (sed_fitting_cell_18 L flux_points log_parabola result_log_parabola)
            sed_fitting_cell_19)))))))))))))))))"

section \<open>What a run shows\<close>

text \<open>The events a run added to the trace.\<close>

definition new_events :: "('o, 'x) world \<Rightarrow> ('o, 'x) world \<Rightarrow> 'o event list" where
  "new_events w w' = drop (length (trace w)) (trace w')"

subsection \<open>Exceptions\<close>





subsection \<open>The stages of an analysis\<close>

text \<open>
  The steps the specification names (a) to (g), with (g) split into computing the flux
  points and plotting them. A stage is recognised by the site of the step that performs
  it; a dataset built from a model (\<^verbatim>\<open>FluxPointsDataset(model, flux_points)\<close>) counts
  as assigning the model.
\<close>

datatype stage =
    OpenDataStore
  | SelectObservations
  | MapGeometry
  | ReductionLoop
  | AssignModel
  | RunFit
  | ComputeFluxPoints
  | PlotFluxPoints

definition stage_of :: "kind \<Rightarrow> string \<Rightarrow> stage option" where
  "stage_of k site =
     (if k = Call \<and> site = ''DataStore.from_dir'' then Some OpenDataStore
      else if k = Call \<and> site = ''data_store.obs_table.select_observations''
        then Some SelectObservations
      else if k = Call \<and> site = ''WcsGeom.create'' then Some MapGeometry
      else if k = Iter \<and> site = ''observations'' then Some ReductionLoop
      else if k = Call \<and> site \<in> set [''stacked.cutout'', ''maker.run'', ''maker_fov.run'',
                                       ''maker_safe_mask.run'', ''stacked.stack'']
        then Some ReductionLoop
      else if k = SetAttr \<and> site = ''stacked.models'' then Some AssignModel
      else if k = Call \<and> site = ''FluxPointsDataset'' then Some AssignModel
      else if k = Call \<and> site \<in> set [''fit.run'', ''fitter.run''] then Some RunFit
      else if k = Call \<and> site = ''fpe.run'' then Some ComputeFluxPoints
      else if k = Call \<and> site = ''flux_points.plot'' then Some PlotFluxPoints
      else None)"

definition event_stage :: "'o event \<Rightarrow> stage option" where
  "event_stage ev = stage_of (ev_kind ev) (ev_site ev)"

text \<open>The stages of a trace in order, a stage that lasts several steps named once.\<close>

definition stages :: "'o event list \<Rightarrow> stage list" where
  "stages tr = remdups_adj (List.map_filter event_stage tr)"

definition pipeline :: "stage list" where
  "pipeline =
     [OpenDataStore, SelectObservations, MapGeometry, ReductionLoop,
      AssignModel, RunFit, ComputeFluxPoints, PlotFluxPoints]"

definition performs_pipeline :: "'o event list \<Rightarrow> bool" where
  "performs_pipeline tr = (stages tr = pipeline)"

definition sed_fitting_stages :: "stage list" where
  "sed_fitting_stages =
     [AssignModel, RunFit, PlotFluxPoints,
      AssignModel, RunFit, PlotFluxPoints,
      AssignModel, RunFit, PlotFluxPoints]"

text \<open>
  A program marks a set of lists under a marking \<open>f\<close> of events when every run of it
  that returns adds events whose marks, in order, are one of the lists.
\<close>

definition marks_of :: "('o event \<Rightarrow> 'm option) \<Rightarrow> 'o event list \<Rightarrow> 'm list" where
  "marks_of f tr = List.map_filter f tr"

definition marks :: "('o event \<Rightarrow> 'm option) \<Rightarrow> ('a, 'o, 'x) nb \<Rightarrow> 'm list set \<Rightarrow> bool" where
  "marks f m S =
     (\<forall>w a w'. m w = (Inr a, w') \<longrightarrow>
        (\<exists>seg. trace w' = trace w @ seg \<and> marks_of f seg \<in> S))"

definition conc :: "'a list set \<Rightarrow> 'a list set \<Rightarrow> 'a list set" where
  "conc S T = {xs @ ys | xs ys. xs \<in> S \<and> ys \<in> T}"

definition repeats :: "'a list \<Rightarrow> 'a list set" where
  "repeats bs = range (\<lambda>n. concat (replicate n bs))"

subsection \<open>What every step of a run is\<close>










subsection \<open>Files\<close>

text \<open>A program leaves every path outside \<open>P\<close> as it found it, in any run.\<close>

definition touches_only :: "string set \<Rightarrow> ('a, 'o, 'x) nb \<Rightarrow> bool" where
  "touches_only P m = (\<forall>w p. p \<notin> P \<longrightarrow> fs (snd (m w)) p = fs w p)"

definition data_directory :: string where
  "data_directory = ''$GAMMAPY_DATA/hess-dl3-dr1''"

definition output_directory :: string where
  "output_directory = ''analysis_2''"

definition output_file :: string where
  "output_file = ''analysis_2/crab-stacked-dataset.fits.gz''"


text \<open>
  Two worlds that differ at most in files outside \<open>D\<close>; a program that cannot tell
  them apart returns the same outcome in both and leaves them as alike as they were.
\<close>

definition alike :: "string set \<Rightarrow> ('o, 'x) world \<Rightarrow> ('o, 'x) world \<Rightarrow> bool" where
  "alike D w1 w2 =
     (trace w1 = trace w2 \<and> ext w1 = ext w2 \<and> (\<forall>p\<in>D. fs w1 p = fs w2 p))"

definition reads_only :: "string set \<Rightarrow> ('a, 'o, 'x) nb \<Rightarrow> bool" where
  "reads_only D m =
     (\<forall>w1 w2. alike D w1 w2 \<longrightarrow>
        fst (m w1) = fst (m w2) \<and> alike D (snd (m w1)) (snd (m w2)))"

definition analysis_2_files :: "string set" where
  "analysis_2_files = {p. prefix data_directory p} \<union> {output_directory, output_file}"

text \<open>A library none of whose entry points ever raises.\<close>

definition never_raises :: "('o, 'x) library \<Rightarrow> bool" where
  "never_raises L =
     ((\<forall>k site args x. \<not> isl (fst (lib_call L k site args x))) \<and>
      (\<forall>site v x. \<not> isl (fst (lib_iter L site v x))) \<and>
      (\<forall>site files args x. \<not> isl (fst (lib_read L site files args x))) \<and>
      (\<forall>v x. \<not> isl (lib_serialize L v x)))"

text \<open>The outputs of an earlier run are in place: the directory, and the file in it.\<close>

definition outputs_exist :: "('o, 'x) world \<Rightarrow> bool" where
  "outputs_exist w =
     (fs w output_directory = Some Dir \<and>
      (case fs w output_file of None \<Rightarrow> False | Some Dir \<Rightarrow> False | Some (File old) \<Rightarrow> True))"

text \<open>A program returns from every world that satisfies \<open>I\<close>, and keeps \<open>I\<close>.\<close>

definition returns :: "(('o, 'x) world \<Rightarrow> bool) \<Rightarrow> ('a, 'o, 'x) nb \<Rightarrow> bool" where
  "returns I m = (\<forall>w. I w \<longrightarrow> \<not> isl (fst (m w)) \<and> I (snd (m w)))"

subsection \<open>The data reduction loop, event by event\<close>

definition value_of :: "'o event \<Rightarrow> 'o pyval" where
  "value_of ev = (case ev_result ev of Inl e \<Rightarrow> PyNone | Inr v \<Rightarrow> v)"

text \<open>
  The events of one iteration that returns, given the values \<open>vs\<close> its steps returned:
  each step is applied to what the earlier ones returned.
\<close>

definition step_events ::
  "'o pyval \<Rightarrow> 'o pyval \<Rightarrow> 'o pyval \<Rightarrow> 'o pyval \<Rightarrow> 'o pyval \<Rightarrow> 'o pyval \<Rightarrow> 'o pyval list
     \<Rightarrow> 'o event list" where
  "step_events stacked offset_max maker maker_fov maker_safe_mask obs vs =
     [Event GetAttr ''obs.pointing_radec'' [Pos obs] (Inr (vs ! 0)) NoFile,
      Event BinOp ''2 * offset_max'' [Pos (PyInt 2), Pos offset_max] (Inr (vs ! 1)) NoFile,
      Event Call ''stacked.cutout'' [Pos stacked, Pos (vs ! 0), Kw ''width'' (vs ! 1)]
        (Inr (vs ! 2)) NoFile,
      Event Call ''maker.run'' [Pos maker, Pos (vs ! 2), Pos obs] (Inr (vs ! 3)) NoFile,
      Event Call ''maker_fov.run'' [Pos maker_fov, Pos (vs ! 3)] (Inr (vs ! 4)) NoFile,
      Event GetAttr ''obs.obs_id'' [Pos obs] (Inr (vs ! 5)) NoFile,
      Event GetAttr ''dataset.background_model'' [Pos (vs ! 4)] (Inr (vs ! 6)) NoFile,
      Event GetAttr ''dataset.background_model.norm'' [Pos (vs ! 6)] (Inr (vs ! 7)) NoFile,
      Event GetAttr ''dataset.background_model.norm.value'' [Pos (vs ! 7)] (Inr (vs ! 8)) NoFile,
      Event Format ''Background norm obs {obs.obs_id}: {dataset.background_model.norm.value:.2f}''
        [Pos (vs ! 5), Pos (vs ! 8)] (Inr (vs ! 9)) NoFile,
      Event Call ''print'' [Pos (vs ! 9)] (Inr (vs ! 10)) NoFile,
      Event Call ''maker_safe_mask.run'' [Pos maker_safe_mask, Pos (vs ! 4), Pos obs]
        (Inr (vs ! 11)) NoFile,
      Event Call ''stacked.stack'' [Pos stacked, Pos (vs ! 11)] (Inr (vs ! 12)) NoFile]"

definition step_ok ::
  "'o pyval \<Rightarrow> 'o pyval \<Rightarrow> 'o pyval \<Rightarrow> 'o pyval \<Rightarrow> 'o pyval \<Rightarrow> 'o pyval \<Rightarrow> 'o event list
     \<Rightarrow> bool" where
  "step_ok stacked offset_max maker maker_fov maker_safe_mask obs seg =
     (length seg = 13 \<and>
      seg = step_events stacked offset_max maker maker_fov maker_safe_mask obs (map value_of seg))"

fun iterations_ok ::
  "'o pyval \<Rightarrow> 'o pyval \<Rightarrow> 'o pyval \<Rightarrow> 'o pyval \<Rightarrow> 'o pyval \<Rightarrow> 'o pyval list \<Rightarrow> 'o event list
     \<Rightarrow> bool" where
  "iterations_ok stacked offset_max maker maker_fov maker_safe_mask [] seg = (seg = [])"
| "iterations_ok stacked offset_max maker maker_fov maker_safe_mask (obs # rest) seg =
     (step_ok stacked offset_max maker maker_fov maker_safe_mask obs (take 13 seg) \<and>
      iterations_ok stacked offset_max maker maker_fov maker_safe_mask rest (drop 13 seg))"

text \<open>
  The events of a loop that returns: the container yields its items, then one
  iteration for each item, in the order of the items.
\<close>

fun loop_ok ::
  "'o pyval \<Rightarrow> 'o pyval \<Rightarrow> 'o pyval \<Rightarrow> 'o pyval \<Rightarrow> 'o pyval \<Rightarrow> 'o pyval \<Rightarrow> 'o event list
     \<Rightarrow> bool" where
  "loop_ok observations stacked offset_max maker maker_fov maker_safe_mask [] = False"
| "loop_ok observations stacked offset_max maker maker_fov maker_safe_mask (ev # seg) =
     (case ev_result ev of
        Inr (PyList items) \<Rightarrow>
          ev = Event Iter ''observations'' [Pos observations] (Inr (PyList items)) NoFile \<and>
          iterations_ok stacked offset_max maker maker_fov maker_safe_mask items seg
      | _ \<Rightarrow> False)"

text \<open>
  The five operations of an iteration, by site, in the order the claim gives them.
\<close>

definition operation_sites :: "string list" where
  "operation_sites =
     [''stacked.cutout'', ''maker.run'', ''maker_fov.run'', ''maker_safe_mask.run'',
      ''stacked.stack'']"

definition operations :: "'o event list \<Rightarrow> string list" where
  "operations seg = filter (\<lambda>s. s \<in> set operation_sites) (map ev_site seg)"

text \<open>How many items the container yielded, read off the loop's first event.\<close>

definition iterations :: "'o event list \<Rightarrow> nat" where
  "iterations seg =
     (case seg of
        [] \<Rightarrow> 0
      | ev # rest \<Rightarrow> (case ev_result ev of Inr (PyList items) \<Rightarrow> length items | _ \<Rightarrow> 0))"

subsection \<open>The save step\<close>



subsection \<open>Two small libraries to run the notebooks on\<close>

text \<open>
  A library whose every call returns a fresh object and whose observation container
  yields two observations; and one for a machine where no package is installed, so that
  every import raises.
\<close>

definition demo_lib :: "(nat, nat) library" where
  "demo_lib =
     \<lparr>lib_call = (\<lambda>k site args x. (Inr (PyObj x), Suc x)),
      lib_iter = (\<lambda>site v x. (Inr [PyObj x, PyObj (Suc x)], x + 2)),
      lib_read = (\<lambda>site files args x. (Inr (PyObj x), Suc x)),
      lib_serialize = (\<lambda>v x. Inr ''stacked dataset'')\<rparr>"



text \<open>A world in which the notebook has run before: its outputs exist.\<close>

definition rerun_world :: "(nat, nat) world" where
  "rerun_world =
     \<lparr>trace = [],
      fs = (\<lambda>p. if p = output_directory then Some Dir
                 else if p = output_file then Some (File ''an earlier dataset'')
                 else None),
      ext = 0\<rparr>"



subsection \<open>Notebooks run one after the other\<close>

text \<open>
  Modelled from the spec: each notebook runs in a process of its own. The process
  starts with the library in its initial state \<open>x0\<close> and with an empty log; the
  file system is the one thing it inherits, as the run before left it. The catalogues and
  other data a library loads without being given a path count as part of its state.
\<close>

definition in_new_process :: "'x \<Rightarrow> ('a, 'o, 'x) nb \<Rightarrow> ('a, 'o, 'x) nb" where
  "in_new_process x0 m w = m (w\<lparr>trace := [], ext := x0\<rparr>)"

text \<open>What a run shows: how it ended, and every step with its outcome.\<close>

definition results :: "('a, 'o, 'x) nb \<Rightarrow> ('o, 'x) world \<Rightarrow> (exn + 'a) \<times> 'o event list" where
  "results m w = (fst (m w), trace (snd (m w)))"

definition run_alone :: "'x \<Rightarrow> ('a, 'o, 'x) nb \<Rightarrow> ('o, 'x) world \<Rightarrow> (exn + 'a) \<times> 'o event list" where
  "run_alone x0 m w = results (in_new_process x0 m) w"

definition run_after ::
  "'x \<Rightarrow> ('b, 'o, 'x) nb \<Rightarrow> ('a, 'o, 'x) nb \<Rightarrow> ('o, 'x) world \<Rightarrow> (exn + 'a) \<times> 'o event list" where
  "run_after x0 earlier m w = results (in_new_process x0 m) (snd (in_new_process x0 earlier w))"
section \<open>Two cells on their data\<close>

text \<open>
  Two claims speak of the data that flows through a cell, and not only of the calls it
  makes: the rows of the flux-points table in \<^verbatim>\<open>sed_fitting\<close>, and the geometry and
  name of the stacked dataset in \<^verbatim>\<open>analysis_2\<close>. For them the cell is modelled a
  second time, over values with fields.
\<close>

subsection \<open>The flux-points table of \<^verbatim>\<open>sed_fitting\<close>\<close>

text \<open>
  A float is a real number, an infinity or NaN. Sums and products of finite floats are
  taken in the reals: rounding and overflow are left out, the special values follow
  IEEE 754.
\<close>

datatype pyfloat = Finite real | PosInf | NegInf | NaN

fun float_add :: "pyfloat \<Rightarrow> pyfloat \<Rightarrow> pyfloat" where
  "float_add NaN y = NaN"
| "float_add x NaN = NaN"
| "float_add PosInf NegInf = NaN"
| "float_add NegInf PosInf = NaN"
| "float_add PosInf y = PosInf"
| "float_add x PosInf = PosInf"
| "float_add NegInf y = NegInf"
| "float_add x NegInf = NegInf"
| "float_add (Finite a) (Finite b) = Finite (a + b)"

definition scaled_infinity :: "real \<Rightarrow> pyfloat \<Rightarrow> pyfloat \<Rightarrow> pyfloat" where
  "scaled_infinity a same opposite = (if a = 0 then NaN else if 0 < a then same else opposite)"

fun float_mul :: "pyfloat \<Rightarrow> pyfloat \<Rightarrow> pyfloat" where
  "float_mul NaN y = NaN"
| "float_mul x NaN = NaN"
| "float_mul (Finite a) (Finite b) = Finite (a * b)"
| "float_mul (Finite a) PosInf = scaled_infinity a PosInf NegInf"
| "float_mul (Finite a) NegInf = scaled_infinity a NegInf PosInf"
| "float_mul PosInf (Finite b) = scaled_infinity b PosInf NegInf"
| "float_mul NegInf (Finite b) = scaled_infinity b NegInf PosInf"
| "float_mul PosInf PosInf = PosInf"
| "float_mul PosInf NegInf = NegInf"
| "float_mul NegInf PosInf = NegInf"
| "float_mul NegInf NegInf = PosInf"



text \<open>
  A row of the table: the two error columns the cell reads, the column it assigns
  (whatever it held before), and the columns it leaves alone.
\<close>

record 'a flux_row =
  dnde_errn :: pyfloat
  dnde_errp :: pyfloat
  dnde_err :: pyfloat
  other_columns :: 'a

type_synonym 'a flux_table = "'a flux_row list"







text \<open>
  The three fits: each dataset is built from its model and from the one variable
  \<^verbatim>\<open>flux_points\<close>, which no cell assigns again.
  \<^verbatim>\<open>dataset_pwl = FluxPointsDataset(model, flux_points)\<close>
  \<^verbatim>\<open>dataset_ecpl = FluxPointsDataset(model, flux_points)\<close>
  \<^verbatim>\<open>dataset_log_parabola = FluxPointsDataset(model, flux_points)\<close>
\<close>

record ('m, 'a) flux_points_dataset =
  fpd_model :: 'm
  fpd_data :: "'a flux_table"

definition FluxPointsDataset :: "'m \<Rightarrow> 'a flux_table \<Rightarrow> ('m, 'a) flux_points_dataset" where
  "FluxPointsDataset model data = \<lparr>fpd_model = model, fpd_data = data\<rparr>"


text \<open>
  The arithmetic mean of a row's two errors, as the claim names it, computed as the cell
  computes it.
\<close>

definition mean_error :: "'a flux_row \<Rightarrow> pyfloat" where
  "mean_error r = float_mul (Finite 0.5) (float_add (dnde_errn r) (dnde_errp r))"



subsection \<open>The stacked dataset of \<^verbatim>\<open>analysis_2\<close>\<close>

text \<open>
  A map dataset: what it was created with (the geometry, the true-energy axis, the
  name) and what it holds (counts, background, exposure and the safe mask, each a map).
\<close>

record ('g, 'e, 'c) map_dataset =
  md_geom :: 'g
  md_energy_axis_true :: 'e
  md_name :: string
  md_counts :: 'c
  md_background :: 'c
  md_exposure :: 'c
  md_mask_safe :: 'c

text \<open>
  Modelled from the spec: the library's \<^verbatim>\<open>MapDataset.create\<close> and
  \<^verbatim>\<open>MapDataset.stack\<close>, whose code is not among the sources. The data model names a
  ``stacked dataset (counts, background, exposure, masks)''; the glossary has
  ``Stacking: summing multiple per-observation reduced datasets into one combined
  dataset''. So creation fills the contents of a dataset of the given geometry, axis and
  name with empty maps, and stacking adds the other dataset's maps onto the target's and
  joins the masks. How two maps add, one of them a cutout, is left to the library.
\<close>

record 'c map_algebra =
  empty_map :: 'c
  sum_maps :: "'c \<Rightarrow> 'c \<Rightarrow> 'c"
  join_masks :: "'c \<Rightarrow> 'c \<Rightarrow> 'c"

definition MapDataset_create ::
  "'c map_algebra \<Rightarrow> 'g \<Rightarrow> 'e \<Rightarrow> string \<Rightarrow> ('g, 'e, 'c) map_dataset" where
  "MapDataset_create A geom energy_axis_true name =
     \<lparr>md_geom = geom, md_energy_axis_true = energy_axis_true, md_name = name,
      md_counts = empty_map A, md_background = empty_map A, md_exposure = empty_map A,
      md_mask_safe = empty_map A\<rparr>"

definition stack ::
  "'c map_algebra \<Rightarrow> ('g, 'e, 'c) map_dataset \<Rightarrow> ('g, 'e, 'c) map_dataset
     \<Rightarrow> ('g, 'e, 'c) map_dataset" where
  "stack A target other =
     target\<lparr>md_counts := sum_maps A (md_counts target) (md_counts other),
            md_background := sum_maps A (md_background target) (md_background other),
            md_exposure := sum_maps A (md_exposure target) (md_exposure other),
            md_mask_safe := join_masks A (md_mask_safe target) (md_mask_safe other)\<rparr>"

text \<open>
  The makers and the cutout stay parameters: each returns a new dataset or raises, and
  none of them is handed the target to change (the cutout reads it).
\<close>

record ('obs, 'g, 'e, 'c) makers =
  mk_cutout :: "('g, 'e, 'c) map_dataset \<Rightarrow> 'obs \<Rightarrow> exn + ('g, 'e, 'c) map_dataset"
  mk_run :: "('g, 'e, 'c) map_dataset \<Rightarrow> 'obs \<Rightarrow> exn + ('g, 'e, 'c) map_dataset"
  mk_fov_run :: "('g, 'e, 'c) map_dataset \<Rightarrow> exn + ('g, 'e, 'c) map_dataset"
  mk_safe_mask_run :: "('g, 'e, 'c) map_dataset \<Rightarrow> 'obs \<Rightarrow> exn + ('g, 'e, 'c) map_dataset"

text \<open>
  One iteration on the target dataset: the new target, or the exception that ended
  the iteration before the target was stacked onto. The printed line is left out.
\<close>

definition reduce_observation ::
  "'c map_algebra \<Rightarrow> ('obs, 'g, 'e, 'c) makers \<Rightarrow> ('g, 'e, 'c) map_dataset \<Rightarrow> 'obs
     \<Rightarrow> exn + ('g, 'e, 'c) map_dataset" where
  "reduce_observation A M stacked obs =
     (case mk_cutout M stacked obs of
        Inl e \<Rightarrow> Inl e
      | Inr cutout \<Rightarrow>
     (case mk_run M cutout obs of
        Inl e \<Rightarrow> Inl e
      | Inr dataset \<Rightarrow>
     (case mk_fov_run M dataset of
        Inl e \<Rightarrow> Inl e
      | Inr dataset \<Rightarrow>
     (case mk_safe_mask_run M dataset obs of
        Inl e \<Rightarrow> Inl e
      | Inr dataset \<Rightarrow> Inr (stack A stacked dataset)))))"

text \<open>
  The loop: the target dataset after the last iteration that completed, and the
  exception that ended the loop early, if one did.
\<close>

fun reduce_observations ::
  "'c map_algebra \<Rightarrow> ('obs, 'g, 'e, 'c) makers \<Rightarrow> ('g, 'e, 'c) map_dataset \<Rightarrow> 'obs list
     \<Rightarrow> exn option \<times> ('g, 'e, 'c) map_dataset" where
  "reduce_observations A M stacked [] = (None, stacked)"
| "reduce_observations A M stacked (obs # rest) =
     (case reduce_observation A M stacked obs of
        Inl e \<Rightarrow> (Some e, stacked)
      | Inr stacked' \<Rightarrow> reduce_observations A M stacked' rest)"

text \<open>
  \<^verbatim>\<open>stacked = MapDataset.create(geom=geom, energy_axis_true=energy_axis_true, name="crab-stacked")\<close>,
  then the loop over the observations.
\<close>

definition crab_stacked ::
  "'c map_algebra \<Rightarrow> ('obs, 'g, 'e, 'c) makers \<Rightarrow> 'g \<Rightarrow> 'e \<Rightarrow> 'obs list
     \<Rightarrow> exn option \<times> ('g, 'e, 'c) map_dataset" where
  "crab_stacked A M geom energy_axis_true observations =
     (let stacked = MapDataset_create A geom energy_axis_true ''crab-stacked''
      in reduce_observations A M stacked observations)"

text \<open>Makers to run the loop on; a map is a single number.\<close>

definition demo_algebra :: "nat map_algebra" where
  "demo_algebra = \<lparr>empty_map = 0, sum_maps = (+), join_masks = max\<rparr>"

definition demo_makers :: "(nat, string, string, nat) makers" where
  "demo_makers =
     \<lparr>mk_cutout = (\<lambda>d obs. Inr (d\<lparr>md_geom := ''cutout of '' @ md_geom d, md_name := ''cutout''\<rparr>)),
      mk_run = (\<lambda>d obs. if obs = 0 then Inl (PyExc ''ValueError'')
                         else Inr (d\<lparr>md_counts := obs, md_exposure := 3, md_name := ''obs''\<rparr>)),
      mk_fov_run = (\<lambda>d. Inr (d\<lparr>md_background := 2\<rparr>)),
      mk_safe_mask_run = (\<lambda>d obs. Inr (d\<lparr>md_mask_safe := 5\<rparr>))\<rparr>"

section \<open>Reasoning about runs\<close>

subsection \<open>Sequencing\<close>

lemma nb_bind_return: "nb_bind (nb_return a) k = k a"
  by (rule ext) (simp add: nb_bind_def nb_return_def)

lemma nb_bind_assoc: "nb_bind (nb_bind m k) h = nb_bind m (\<lambda>a. nb_bind (k a) h)"
  by (rule ext) (simp add: nb_bind_def split: prod.splits sum.splits)

lemma nb_bind_returns:
  "nb_bind m k w = (Inr b, w'') \<Longrightarrow> \<exists>a w'. m w = (Inr a, w') \<and> k a w' = (Inr b, w'')"
  by (auto simp: nb_bind_def split: prod.splits sum.splits)



lemmas step_wrappers =
  call_def getattr_def setattr_def getitem_def setitem_def binop_def import_stmt_def
  magic_def module_attr_def

lemmas flatten = nb_seq_def nb_bind_assoc nb_bind_return prod.case Let_def

subsection \<open>Exceptions end the run\<close>











subsection \<open>What every step is\<close>










subsection \<open>Which files a run changes\<close>

lemma touches_only_return: "touches_only P (nb_return a)"
  by (simp add: touches_only_def nb_return_def)

lemma touches_only_bind:
  assumes "touches_only P m" and "\<And>a. touches_only P (k a)"
  shows "touches_only P (nb_bind m k)"
  using assms unfolding touches_only_def nb_bind_def
  by (auto split: prod.splits sum.splits) (metis snd_conv)+

lemma touches_only_step: "touches_only P (step L k site args)"
  by (auto simp: touches_only_def step_def split: prod.splits)






subsection \<open>Which files a run depends on\<close>

lemma reads_only_return: "reads_only D (nb_return a)"
  by (simp add: reads_only_def nb_return_def)

lemma reads_only_bind:
  fixes m :: "('a, 'o, 'x) nb" and k :: "'a \<Rightarrow> ('b, 'o, 'x) nb"
  assumes "reads_only D m" and "\<And>a. reads_only D (k a)"
  shows "reads_only D (nb_bind m k)"
  unfolding reads_only_def
proof (intro allI impI)
  fix w1 w2 :: "('o, 'x) world"
  assume a: "alike D w1 w2"
  obtain r w1' where m1: "m w1 = (r, w1')" by (cases "m w1")
  obtain r2 w2' where m2: "m w2 = (r2, w2')" by (cases "m w2")
  from assms(1)[unfolded reads_only_def, rule_format, OF a] m1 m2
  have r: "r2 = r" and a': "alike D w1' w2'"
    by simp_all
  show "fst (nb_bind m k w1) = fst (nb_bind m k w2)
        \<and> alike D (snd (nb_bind m k w1)) (snd (nb_bind m k w2))"
  proof (cases r)
    case (Inl e)
    with m1 m2 r a' show ?thesis by (simp add: nb_bind_def)
  next
    case (Inr v)
    from assms(2)[of v] a' have "fst (k v w1') = fst (k v w2')
        \<and> alike D (snd (k v w1')) (snd (k v w2'))"
      by (simp add: reads_only_def)
    with Inr m1 m2 r show ?thesis by (simp add: nb_bind_def)
  qed
qed

lemma reads_only_step: "reads_only D (step L k site args)"
  by (auto simp: reads_only_def alike_def step_def split: prod.splits)

lemma reads_only_iterate: "reads_only D (iterate L site v)"
  by (auto simp: reads_only_def alike_def iterate_def split: prod.splits)

lemma files_under_alike:
  assumes "\<And>p. prefix d p \<Longrightarrow> p \<in> D" and "\<forall>p\<in>D. f1 p = f2 p"
  shows "files_under d f1 = files_under d f2"
  using assms by (auto simp: files_under_def fun_eq_iff)

lemma reads_only_read_call:
  assumes "\<And>p. prefix d p \<Longrightarrow> p \<in> D"
  shows "reads_only D (read_call L site d)"
  unfolding reads_only_def
proof (intro allI impI)
  fix w1 w2 :: "('a, 'b) world"
  assume a: "alike D w1 w2"
  then have "\<forall>p\<in>D. fs w1 p = fs w2 p"
    by (simp add: alike_def)
  with assms have "files_under d (fs w1) = files_under d (fs w2)"
    by (rule files_under_alike)
  with a show "fst (read_call L site d w1) = fst (read_call L site d w2)
        \<and> alike D (snd (read_call L site d w1)) (snd (read_call L site d w2))"
    by (auto simp: alike_def read_call_def split: prod.splits)
qed

lemma reads_only_path_mkdir:
  assumes "p \<in> D" and "\<And>d. parent_dir p = Some d \<Longrightarrow> d \<in> D"
  shows "reads_only D (path_mkdir p ok)"
  unfolding reads_only_def
proof (intro allI impI)
  fix w1 w2 :: "('a, 'b) world"
  assume a: "alike D w1 w2"
  with assms have same: "fs w1 p = fs w2 p" "parent_is_dir (fs w1) p = parent_is_dir (fs w2) p"
    by (auto simp: alike_def parent_is_dir_def split: option.splits)
  have out: "map_sum id (\<lambda>f. ()) (mkdir_outcome (fs w1) p ok)
           = map_sum id (\<lambda>f. ()) (mkdir_outcome (fs w2) p ok)"
    using same by (auto simp: mkdir_outcome_def split: option.splits)
  have upd: "\<And>f1 f2 q. mkdir_outcome (fs w1) p ok = Inr f1 \<Longrightarrow>
      mkdir_outcome (fs w2) p ok = Inr f2 \<Longrightarrow> q \<in> D \<Longrightarrow> f1 q = f2 q"
    using a same by (auto simp: mkdir_outcome_def alike_def split: option.splits if_splits)
  show "fst (path_mkdir p ok w1) = fst (path_mkdir p ok w2)
        \<and> alike D (snd (path_mkdir p ok w1)) (snd (path_mkdir p ok w2))"
  proof (cases "mkdir_outcome (fs w1) p ok")
    case (Inl e)
    with out have "mkdir_outcome (fs w2) p ok = Inl e"
      by (cases "mkdir_outcome (fs w2) p ok") auto
    with Inl a show ?thesis by (simp add: path_mkdir_def Let_def alike_def)
  next
    case (Inr f1)
    with out obtain f2 where f2: "mkdir_outcome (fs w2) p ok = Inr f2"
      by (cases "mkdir_outcome (fs w2) p ok") auto
    with Inr a upd[OF Inr f2] show ?thesis by (simp add: path_mkdir_def Let_def alike_def)
  qed
qed

lemma reads_only_dataset_write:
  assumes "filename \<in> D" and "\<And>d. parent_dir filename = Some d \<Longrightarrow> d \<in> D"
  shows "reads_only D (dataset_write L site obj filename ov)"
  unfolding reads_only_def
proof (intro allI impI)
  fix w1 w2 :: "('a, 'b) world"
  assume a: "alike D w1 w2"
  with assms have same: "fs w1 filename = fs w2 filename"
      "parent_is_dir (fs w1) filename = parent_is_dir (fs w2) filename"
    by (auto simp: alike_def parent_is_dir_def split: option.splits)
  from a have x: "ext w1 = ext w2" by (simp add: alike_def)
  show "fst (dataset_write L site obj filename ov w1) = fst (dataset_write L site obj filename ov w2)
        \<and> alike D (snd (dataset_write L site obj filename ov w1))
                   (snd (dataset_write L site obj filename ov w2))"
  proof (cases "lib_serialize L obj (ext w1)")
    case (Inl e)
    with a x show ?thesis by (simp add: dataset_write_def Let_def alike_def)
  next
    case (Inr content)
    have out: "map_sum id (\<lambda>f. ()) (write_outcome (fs w1) filename ov content)
             = map_sum id (\<lambda>f. ()) (write_outcome (fs w2) filename ov content)"
      using same by (auto simp: write_outcome_def split: option.splits node.splits)
    have upd: "\<And>f1 f2 q. write_outcome (fs w1) filename ov content = Inr f1 \<Longrightarrow>
        write_outcome (fs w2) filename ov content = Inr f2 \<Longrightarrow> q \<in> D \<Longrightarrow> f1 q = f2 q"
      using a same
      by (auto simp: write_outcome_def alike_def split: option.splits node.splits if_splits)
    show ?thesis
    proof (cases "write_outcome (fs w1) filename ov content")
      case (Inl e)
      with out have "write_outcome (fs w2) filename ov content = Inl e"
        by (cases "write_outcome (fs w2) filename ov content") auto
      with Inl Inr a x show ?thesis by (simp add: dataset_write_def Let_def alike_def)
    next
      case f1: (Inr f1)
      with out obtain f2 where f2: "write_outcome (fs w2) filename ov content = Inr f2"
        by (cases "write_outcome (fs w2) filename ov content") auto
      with f1 Inr a x upd[OF f1 f2] show ?thesis
        by (simp add: dataset_write_def Let_def alike_def)
    qed
  qed
qed

lemma reads_only_for_each:
  "(\<And>x. reads_only D (body x)) \<Longrightarrow> reads_only D (for_each xs body)"
  by (induction xs) (simp_all add: reads_only_return reads_only_bind)

subsection \<open>Runs that return\<close>

lemma returns_return: "returns I (nb_return a)"
  by (simp add: returns_def nb_return_def)

lemma returns_bind:
  fixes m :: "('a, 'o, 'x) nb" and k :: "'a \<Rightarrow> ('b, 'o, 'x) nb"
  assumes "returns I m" and "\<And>a. returns I (k a)"
  shows "returns I (nb_bind m k)"
  unfolding returns_def
proof (intro allI impI)
  fix w :: "('o, 'x) world"
  assume i: "I w"
  obtain r w' where mw: "m w = (r, w')" by (cases "m w")
  with assms(1) i obtain a where r: "r = Inr a" and i': "I w'"
    by (cases r) (auto simp: returns_def)
  from assms(2)[of a] i' have "\<not> isl (fst (k a w')) \<and> I (snd (k a w'))"
    by (simp add: returns_def)
  with mw r show "\<not> isl (fst (nb_bind m k w)) \<and> I (snd (nb_bind m k w))"
    by (simp add: nb_bind_def)
qed

lemma returns_step: "never_raises L \<Longrightarrow> returns outputs_exist (step L k site args)"
  unfolding returns_def never_raises_def step_def outputs_exist_def
  by (auto split: prod.splits) (metis fst_conv)

lemma returns_iterate: "never_raises L \<Longrightarrow> returns outputs_exist (iterate L site v)"
  unfolding returns_def never_raises_def iterate_def outputs_exist_def
  by (auto split: prod.splits) (metis fst_conv)

lemma returns_read_call: "never_raises L \<Longrightarrow> returns outputs_exist (read_call L site d)"
  unfolding returns_def never_raises_def read_call_def outputs_exist_def
  by (auto split: prod.splits) (metis fst_conv)

lemma returns_path_mkdir:
  "p = output_directory \<Longrightarrow> returns outputs_exist (path_mkdir p True)"
  by (auto simp: returns_def outputs_exist_def path_mkdir_def mkdir_outcome_def Let_def
           split: sum.splits option.splits node.splits)

lemma returns_dataset_write:
  assumes "never_raises L" and "filename = output_file"
  shows "returns outputs_exist (dataset_write L site obj filename True)"
  unfolding returns_def
proof (intro allI impI)
  fix w :: "('a, 'b) world"
  assume i: "outputs_exist w"
  from assms(1) have "\<not> isl (lib_serialize L obj (ext w))"
    by (simp add: never_raises_def)
  then obtain content where c: "lib_serialize L obj (ext w) = Inr content"
    by (cases "lib_serialize L obj (ext w)") auto
  from i obtain old where old: "fs w output_file = Some (File old)"
    by (auto simp: outputs_exist_def split: option.splits node.splits)
  have ne: "output_directory \<noteq> output_file"
    by (simp add: output_directory_def output_file_def)
  from i c old assms(2) ne
  show "\<not> isl (fst (dataset_write L site obj filename True w))
        \<and> outputs_exist (snd (dataset_write L site obj filename True w))"
    by (simp add: dataset_write_def write_outcome_def Let_def outputs_exist_def)
qed

lemma returns_for_each: "(\<And>x. returns I (body x)) \<Longrightarrow> returns I (for_each xs body)"
  by (induction xs) (simp_all add: returns_return returns_bind)

lemma returns_outcome:
  assumes "returns I m" and "I w"
  shows "\<exists>a. m w = (Inr a, snd (m w))"
  using assms unfolding returns_def by (cases "m w"; cases "fst (m w)") auto

lemma never_raises_demo: "never_raises demo_lib"
  by (simp add: never_raises_def demo_lib_def)

lemma outputs_exist_rerun: "outputs_exist rerun_world"
  by (simp add: outputs_exist_def rerun_world_def output_directory_def output_file_def)

subsection \<open>The marks of a run that returns\<close>

lemma marks_of_append: "marks_of f (xs @ ys) = marks_of f xs @ marks_of f ys"
  by (simp add: marks_of_def map_filter_def)

lemma marks_of_single:
  "marks_of f [ev] = (case f ev of None \<Rightarrow> [] | Some s \<Rightarrow> [s])"
  by (simp add: marks_of_def map_filter_def split: option.splits)

lemma marks_return: "marks f (nb_return a) {[]}"
  by (simp add: marks_def nb_return_def marks_of_def map_filter_def)

lemma marks_bind:
  fixes m :: "('a, 'o, 'x) nb" and k :: "'a \<Rightarrow> ('b, 'o, 'x) nb"
  assumes "marks f m S" and "\<And>a. marks f (k a) T"
  shows "marks f (nb_bind m k) (conc S T)"
  unfolding marks_def
proof (intro allI impI)
  fix w :: "('o, 'x) world" and b w''
  assume "nb_bind m k w = (Inr b, w'')"
  then obtain a w' where 1: "m w = (Inr a, w')" and 2: "k a w' = (Inr b, w'')"
    by (blast dest: nb_bind_returns)
  from assms(1) 1 obtain s1 where s1: "trace w' = trace w @ s1" "marks_of f s1 \<in> S"
    unfolding marks_def by blast
  from assms(2)[of a] 2 obtain s2 where s2: "trace w'' = trace w' @ s2" "marks_of f s2 \<in> T"
    unfolding marks_def by blast
  from s1 s2 have "trace w'' = trace w @ (s1 @ s2) \<and> marks_of f (s1 @ s2) \<in> conc S T"
    by (auto simp: conc_def marks_of_append)
  then show "\<exists>seg. trace w'' = trace w @ seg \<and> marks_of f seg \<in> conc S T"
    by blast
qed

lemma marks_weaken: "marks f m S \<Longrightarrow> S \<subseteq> T \<Longrightarrow> marks f m T"
  unfolding marks_def by blast

lemma marks_step:
  "(\<And>a. f (Event k site args (Inr a) NoFile) = r)
   \<Longrightarrow> marks f (step L k site args) {case r of None \<Rightarrow> [] | Some s \<Rightarrow> [s]}"
  by (auto simp: marks_def step_def marks_of_single split: prod.splits)

lemma marks_iterate:
  "(\<And>items. f (Event Iter site [Pos v] (Inr (PyList items)) NoFile) = r)
   \<Longrightarrow> marks f (iterate L site v) {case r of None \<Rightarrow> [] | Some s \<Rightarrow> [s]}"
  by (auto simp: marks_def iterate_def marks_of_single split: prod.splits)

lemma marks_read_call:
  "(\<And>a. f (Event Call site [Pos (PyStr d)] (Inr a) (ReadsUnder d)) = r)
   \<Longrightarrow> marks f (read_call L site d) {case r of None \<Rightarrow> [] | Some s \<Rightarrow> [s]}"
  by (auto simp: marks_def read_call_def marks_of_single split: prod.splits)

lemma marks_path_mkdir:
  "f (Event Call ''path.mkdir'' [Pos (PyPath p), Kw ''exist_ok'' (PyBool ok)] (Inr PyNone) (Creates p)) = r
   \<Longrightarrow> marks f (path_mkdir p ok) {case r of None \<Rightarrow> [] | Some s \<Rightarrow> [s]}"
  by (auto simp: marks_def path_mkdir_def Let_def marks_of_single split: sum.splits)

lemma marks_dataset_write:
  "f (Event Call site [Pos obj, Pos (PyPath filename), Kw ''overwrite'' (PyBool ov)] (Inr PyNone)
        (WritesFile filename)) = r
   \<Longrightarrow> marks f (dataset_write L site obj filename ov) {case r of None \<Rightarrow> [] | Some s \<Rightarrow> [s]}"
  by (auto simp: marks_def dataset_write_def Let_def marks_of_single split: sum.splits)

lemma repeats_step: "concat (replicate n bs) \<in> repeats bs"
  by (auto simp: repeats_def)

lemma marks_for_each:
  fixes body :: "'a \<Rightarrow> ('b, 'o, 'x) nb"
  assumes "\<And>x. marks f (body x) {bs}"
  shows "marks f (for_each xs body) (repeats bs)"
  unfolding marks_def
proof (intro allI impI)
  fix w :: "('o, 'x) world" and u w'
  assume "for_each xs body w = (Inr u, w')"
  then have "\<exists>seg. trace w' = trace w @ seg \<and> marks_of f seg = concat (replicate (length xs) bs)"
  proof (induction xs arbitrary: w)
    case Nil
    then show ?case by (simp add: nb_return_def marks_of_def map_filter_def)
  next
    case (Cons x xs)
    then obtain a w1 where 1: "body x w = (Inr a, w1)" and 2: "for_each xs body w1 = (Inr u, w')"
      by (auto dest: nb_bind_returns)
    from assms[of x] 1 obtain s1 where s1: "trace w1 = trace w @ s1" "marks_of f s1 = bs"
      unfolding marks_def by blast
    from Cons.IH[OF 2] obtain s2 where
      s2: "trace w' = trace w1 @ s2" "marks_of f s2 = concat (replicate (length xs) bs)"
      by blast
    from s1 s2 have "trace w' = trace w @ (s1 @ s2)
        \<and> marks_of f (s1 @ s2) = concat (replicate (length (x # xs)) bs)"
      by (simp add: marks_of_append)
    then show ?case by blast
  qed
  then show "\<exists>seg. trace w' = trace w @ seg \<and> marks_of f seg \<in> repeats bs"
    by (auto simp: repeats_def)
qed

lemma conc_single: "conc {xs} {ys} = {xs @ ys}"
  by (auto simp: conc_def)

lemma conc_single_left: "conc {xs} (conc {ys} T) = conc {xs @ ys} T"
  by (auto simp: conc_def)

lemma conc_Nil_left: "conc {[]} T = T"
  by (auto simp: conc_def)

lemmas conc_simps = conc_single conc_single_left conc_Nil_left

lemma marks_new_events:
  assumes "marks f m S" and "m w = (Inr a, w')"
  shows "marks_of f (new_events w w') \<in> S"
  using assms unfolding marks_def new_events_def by (metis append_eq_conv_conj)

lemma remdups_adj_twice:
  "remdups_adj (xs @ x # x # zs) = remdups_adj (xs @ x # zs)"
  by (induction xs rule: remdups_adj.induct) simp_all

lemma remdups_adj_repeat:
  "remdups_adj (xs @ x # replicate n x @ ys) = remdups_adj (xs @ x # ys)"
  by (induction n) (simp_all add: remdups_adj_twice)

subsection \<open>The notebooks as flat sequences of steps\<close>

lemmas analysis_2_cells =
  analysis_2_cell_1_def analysis_2_cell_2_def analysis_2_cell_3_def analysis_2_cell_4_def
  analysis_2_cell_5_def analysis_2_cell_6_def analysis_2_cell_7_def analysis_2_cell_8_def
  analysis_2_cell_9_def analysis_2_cell_10_def analysis_2_cell_11_def analysis_2_cell_12_def
  analysis_2_cell_13_def analysis_2_cell_14_def analysis_2_cell_15_def analysis_2_cell_16_def
  analysis_2_cell_17_def analysis_2_cell_18_def analysis_2_cell_19_def analysis_2_cell_20_def
  analysis_2_cell_21_def analysis_2_cell_22_def analysis_2_cell_23_def analysis_2_cell_24_def
  analysis_2_cell_25_def analysis_2_cell_26_def analysis_2_cell_27_def analysis_2_cell_28_def
  analysis_2_cell_29_def reduction_loop_def

lemmas sed_fitting_cells =
  sed_fitting_cell_1_def sed_fitting_cell_2_def sed_fitting_cell_3_def sed_fitting_cell_4_def
  sed_fitting_cell_5_def sed_fitting_cell_6_def sed_fitting_cell_7_def sed_fitting_cell_8_def
  sed_fitting_cell_9_def sed_fitting_cell_10_def sed_fitting_cell_11_def sed_fitting_cell_12_def
  sed_fitting_cell_13_def sed_fitting_cell_14_def sed_fitting_cell_15_def sed_fitting_cell_16_def
  sed_fitting_cell_17_def sed_fitting_cell_18_def sed_fitting_cell_19_def

section \<open>The data reduction loop\<close>

lemma step_returns:
  "step L k site args w = (Inr a, w') \<Longrightarrow> trace w' = trace w @ [Event k site args (Inr a) NoFile]"
  by (auto simp: step_def split: prod.splits)

lemma bind_step_returns:
  assumes "nb_bind (step L k site args) f w = (Inr b, w'')"
  shows "\<exists>a w'. trace w' = trace w @ [Event k site args (Inr a) NoFile] \<and> f a w' = (Inr b, w'')"
  using assms by (blast dest: nb_bind_returns step_returns)

lemma iterate_returns:
  "iterate L site v w = (Inr items, w')
   \<Longrightarrow> trace w' = trace w @ [Event Iter site [Pos v] (Inr (PyList items)) NoFile]"
  by (auto simp: iterate_def split: prod.splits)

lemma step_ok_literal:
  "step_ok stacked offset_max maker maker_fov maker_safe_mask obs
     (step_events stacked offset_max maker maker_fov maker_safe_mask obs
        [v0, v1, v2, v3, v4, v5, v6, v7, v8, v9, v10, v11, v12])"
  by (simp add: step_ok_def step_events_def value_of_def)

lemma reduction_step_events:
  assumes "reduction_step L stacked offset_max maker maker_fov maker_safe_mask obs w = (Inr a, w')"
  shows "\<exists>seg. trace w' = trace w @ seg
           \<and> step_ok stacked offset_max maker maker_fov maker_safe_mask obs seg"
proof -
  from assms obtain v0 v1 v2 v3 v4 v5 v6 v7 v8 v9 v10 v11 v12 where
    "trace w' = trace w @
       step_events stacked offset_max maker maker_fov maker_safe_mask obs
         [v0, v1, v2, v3, v4, v5, v6, v7, v8, v9, v10, v11, v12]"
    unfolding reduction_step_def step_wrappers
    apply -
    apply (drule bind_step_returns, elim exE conjE)+
    apply (drule step_returns)
    apply (simp add: step_events_def)
    done
  then show ?thesis
    using step_ok_literal by blast
qed

lemma for_each_reduction_events:
  assumes "for_each items (reduction_step L stacked offset_max maker maker_fov maker_safe_mask) w
             = (Inr u, w')"
  shows "\<exists>seg. trace w' = trace w @ seg
           \<and> iterations_ok stacked offset_max maker maker_fov maker_safe_mask items seg"
  using assms
proof (induction items arbitrary: w)
  case Nil
  then show ?case by (simp add: nb_return_def)
next
  case (Cons obs rest)
  from Cons.prems obtain a w1 where
    1: "reduction_step L stacked offset_max maker maker_fov maker_safe_mask obs w = (Inr a, w1)"
    and 2: "for_each rest (reduction_step L stacked offset_max maker maker_fov maker_safe_mask) w1
              = (Inr u, w')"
    by (auto dest: nb_bind_returns)
  from reduction_step_events[OF 1] obtain s1 where
    s1: "trace w1 = trace w @ s1"
        "step_ok stacked offset_max maker maker_fov maker_safe_mask obs s1"
    by blast
  from Cons.IH[OF 2] obtain s2 where
    s2: "trace w' = trace w1 @ s2"
        "iterations_ok stacked offset_max maker maker_fov maker_safe_mask rest s2"
    by blast
  from s1(2) have len: "length s1 = 13" by (simp add: step_ok_def)
  from s1 s2 len have "trace w' = trace w @ (s1 @ s2)
      \<and> iterations_ok stacked offset_max maker maker_fov maker_safe_mask (obs # rest) (s1 @ s2)"
    by simp
  then show ?case by blast
qed

lemma reduction_loop_events:
  assumes "reduction_loop L observations stacked offset_max maker maker_fov maker_safe_mask w
             = (Inr u, w')"
  shows "\<exists>items seg.
           trace w' = trace w @ Event Iter ''observations'' [Pos observations] (Inr (PyList items)) NoFile # seg
           \<and> iterations_ok stacked offset_max maker maker_fov maker_safe_mask items seg"
proof -
  from assms obtain items w1 where
    1: "iterate L ''observations'' observations w = (Inr items, w1)"
    and 2: "for_each items (reduction_step L stacked offset_max maker maker_fov maker_safe_mask) w1
              = (Inr u, w')"
    unfolding reduction_loop_def by (auto dest: nb_bind_returns)
  from for_each_reduction_events[OF 2] obtain seg where
    "trace w' = trace w1 @ seg"
    "iterations_ok stacked offset_max maker maker_fov maker_safe_mask items seg"
    by blast
  with iterate_returns[OF 1] show ?thesis by simp
qed

lemma step_ok_operations:
  "step_ok stacked offset_max maker maker_fov maker_safe_mask obs seg
   \<Longrightarrow> operations seg = operation_sites"
  unfolding step_ok_def
  by (erule conjE, erule ssubst) (simp add: step_events_def operations_def operation_sites_def)

lemma operations_append: "operations (xs @ ys) = operations xs @ operations ys"
  by (simp add: operations_def)

lemma iterations_ok_operations:
  "iterations_ok stacked offset_max maker maker_fov maker_safe_mask items seg
   \<Longrightarrow> operations seg = concat (replicate (length items) operation_sites)"
proof (induction items arbitrary: seg)
  case Nil
  then show ?case by (simp add: operations_def)
next
  case (Cons obs rest)
  then have a: "operations (take 13 seg) = operation_sites"
    and b: "operations (drop 13 seg) = concat (replicate (length rest) operation_sites)"
    by (auto dest: step_ok_operations)
  have "operations seg = operations (take 13 seg @ drop 13 seg)" by simp
  also have "\<dots> = operation_sites @ concat (replicate (length rest) operation_sites)"
    using a b by (simp only: operations_append)
  finally show ?case by simp
qed

lemma reduction_loop_returns:
  "never_raises L \<Longrightarrow>
   returns outputs_exist (reduction_loop L observations stacked offset_max maker maker_fov maker_safe_mask)"
  unfolding reduction_loop_def reduction_step_def step_wrappers flatten
  by (intro returns_bind returns_for_each returns_return returns_step returns_iterate)

text \<open>
  C3. In a run of the data reduction loop that returns, the container of observations
  yields its items and then, for each item in turn, the thirteen steps of the loop body
  follow one another: the cutout of the target dataset at the observation's pointing, the
  map dataset made from that cutout and the observation, the background fit on the
  result, the printed line, the safe mask on the fitted dataset and the observation, and
  the stacking of what the safe mask returned onto the target dataset. Read by site, the
  operations are cutout, \<^verbatim>\<open>maker.run\<close>, \<^verbatim>\<open>maker_fov.run\<close>,
  \<^verbatim>\<open>maker_safe_mask.run\<close>, \<^verbatim>\<open>stacked.stack\<close>, once for every observation.
\<close>

theorem reduction_loop_order:
  assumes "reduction_loop L observations stacked offset_max maker maker_fov maker_safe_mask w
             = (Inr u, w')"
  shows "loop_ok observations stacked offset_max maker maker_fov maker_safe_mask (new_events w w')
         \<and> operations (new_events w w')
             = concat (replicate (iterations (new_events w w')) operation_sites)"
proof -
  from reduction_loop_events[OF assms] obtain items seg where
    tr: "trace w' = trace w
           @ Event Iter ''observations'' [Pos observations] (Inr (PyList items)) NoFile # seg"
    and ok: "iterations_ok stacked offset_max maker maker_fov maker_safe_mask items seg"
    by blast
  from tr have new: "new_events w w'
      = Event Iter ''observations'' [Pos observations] (Inr (PyList items)) NoFile # seg"
    by (simp add: new_events_def)
  have "operations (new_events w w') = operations seg"
    unfolding new by (simp add: operations_def operation_sites_def)
  with ok new iterations_ok_operations[OF ok] show ?thesis
    by (simp add: iterations_def)
qed

theorem reduction_loop_order_witness:
  "loop_ok (PyObj 5) (PyObj 9) (PyObj 11) (PyObj 12) (PyObj 20) (PyObj 13)
     (new_events rerun_world
        (snd (reduction_loop demo_lib (PyObj 5) (PyObj 9) (PyObj 11) (PyObj 12) (PyObj 20)
                (PyObj 13) rerun_world)))
   \<and> operations
       (new_events rerun_world
          (snd (reduction_loop demo_lib (PyObj 5) (PyObj 9) (PyObj 11) (PyObj 12) (PyObj 20)
                  (PyObj 13) rerun_world)))
     = concat (replicate
         (iterations
            (new_events rerun_world
               (snd (reduction_loop demo_lib (PyObj 5) (PyObj 9) (PyObj 11) (PyObj 12)
                       (PyObj 20) (PyObj 13) rerun_world))))
         operation_sites)"
proof -
  from returns_outcome[OF reduction_loop_returns[OF never_raises_demo] outputs_exist_rerun]
  obtain u where
    "reduction_loop demo_lib (PyObj 5) (PyObj 9) (PyObj 11) (PyObj 12) (PyObj 20) (PyObj 13)
       rerun_world
     = (Inr u, snd (reduction_loop demo_lib (PyObj 5) (PyObj 9) (PyObj 11) (PyObj 12)
                      (PyObj 20) (PyObj 13) rerun_world))"
    by blast
  then show ?thesis by (rule reduction_loop_order)
qed

section \<open>The two notebooks, step by step\<close>








lemma analysis_2_reads: "reads_only analysis_2_files (analysis_2 L)"
  unfolding analysis_2_def analysis_2_cells reduction_step_def step_wrappers flatten
  by (intro reads_only_bind reads_only_for_each reads_only_return reads_only_step
        reads_only_iterate reads_only_read_call reads_only_path_mkdir reads_only_dataset_write)
     (simp_all add: analysis_2_files_def Path_def path_div_def output_directory_def
        output_file_def data_directory_def parent_dir_def)

lemma analysis_2_returns: "never_raises L \<Longrightarrow> returns outputs_exist (analysis_2 L)"
  unfolding analysis_2_def analysis_2_cells reduction_step_def step_wrappers flatten
  by (intro returns_bind returns_for_each returns_return returns_step returns_iterate
        returns_read_call returns_path_mkdir returns_dataset_write)
     (simp_all add: Path_def path_div_def output_directory_def output_file_def)

lemma sed_fitting_returns: "never_raises L \<Longrightarrow> returns outputs_exist (sed_fitting L)"
  unfolding sed_fitting_def sed_fitting_cells step_wrappers flatten
  by (intro returns_bind returns_return returns_step)

lemmas marks_intros =
  marks_bind marks_for_each marks_return marks_step marks_iterate marks_read_call
  marks_path_mkdir marks_dataset_write

lemma reduction_step_stage_marks:
  "marks event_stage (reduction_step L stacked offset_max maker maker_fov maker_safe_mask obs)
     {replicate 5 ReductionLoop}"
  apply (rule marks_weaken)
   apply (unfold reduction_step_def step_wrappers flatten)
   apply ((rule marks_intros | simp add: event_stage_def stage_of_def)+)[1]
  apply (simp add: conc_simps numeral_eq_Suc)
  done

lemma sed_fitting_stage_marks: "marks event_stage (sed_fitting L) {sed_fitting_stages}"
  apply (rule marks_weaken)
   apply (unfold sed_fitting_def sed_fitting_cells step_wrappers flatten)
   apply ((rule marks_intros | simp add: event_stage_def stage_of_def)+)[1]
  apply (simp add: conc_simps sed_fitting_stages_def)
  done

lemma analysis_2_stage_marks:
  "marks event_stage (analysis_2 L)
     (conc {[OpenDataStore, SelectObservations, MapGeometry, ReductionLoop]}
        (conc (repeats (replicate 5 ReductionLoop))
           {[AssignModel, RunFit, ComputeFluxPoints, PlotFluxPoints]}))"
  apply (rule marks_weaken)
   apply (unfold analysis_2_def analysis_2_cells step_wrappers flatten)
   apply ((rule marks_intros reduction_step_stage_marks
           | simp add: event_stage_def stage_of_def Path_def path_div_def)+)[1]
  apply (simp add: conc_simps)
  done

lemma concat_replicate_replicate:
  "concat (replicate n (replicate k x)) = replicate (n * k) x"
  by (induction n) (simp_all add: replicate_add)

lemma analysis_2_stages_pipeline:
  assumes "analysis_2 L w = (Inr a, w')"
  shows "stages (new_events w w') = pipeline"
proof -
  from marks_new_events[OF analysis_2_stage_marks assms]
  obtain n where "marks_of event_stage (new_events w w') =
      [OpenDataStore, SelectObservations, MapGeometry, ReductionLoop]
      @ replicate (n * 5) ReductionLoop
      @ [AssignModel, RunFit, ComputeFluxPoints, PlotFluxPoints]"
    by (auto simp: conc_def repeats_def concat_replicate_replicate)
  then have "stages (new_events w w') =
      remdups_adj ([OpenDataStore, SelectObservations, MapGeometry] @ ReductionLoop
        # replicate (n * 5) ReductionLoop
        @ [AssignModel, RunFit, ComputeFluxPoints, PlotFluxPoints])"
    by (simp add: stages_def marks_of_def)
  also have "\<dots> = pipeline"
    by (simp only: remdups_adj_repeat) (simp add: pipeline_def)
  finally show ?thesis .
qed

lemma sed_fitting_stages_run:
  assumes "sed_fitting L w = (Inr a, w')"
  shows "stages (new_events w w') = sed_fitting_stages"
proof -
  from marks_new_events[OF sed_fitting_stage_marks assms]
  have "marks_of event_stage (new_events w w') = sed_fitting_stages"
    by simp
  then show ?thesis
    by (simp add: stages_def marks_of_def sed_fitting_stages_def)
qed







section \<open>The shape of the notebooks\<close>

text \<open>
  C1, as amended. The notebook \<^verbatim>\<open>analysis_2\<close> performs the stages in the order
  given: it opens the data store, selects observations, builds the map geometry, loops
  over the observations, assigns the model, runs the fit, computes the flux points and
  plots them. The notebook \<^verbatim>\<open>sed_fitting\<close> performs none of the first four and
  computes no flux points: it loads flux points from catalogues and then, three times
  over, builds a dataset from a spectral model and those points, runs a fit, and plots
  the points. Both hold for every library, in every run that returns.
\<close>

theorem notebooks_stages:
  "(analysis_2 L w = (Inr a, w') \<longrightarrow> stages (new_events w w') = pipeline)
   \<and> (sed_fitting L w = (Inr a, w') \<longrightarrow> stages (new_events w w') = sed_fitting_stages)"
  using analysis_2_stages_pipeline sed_fitting_stages_run by blast

theorem notebooks_stages_witness:
  "stages (new_events rerun_world (snd (analysis_2 demo_lib rerun_world))) = pipeline
   \<and> stages (new_events rerun_world (snd (sed_fitting demo_lib rerun_world)))
       = sed_fitting_stages"
proof -
  from returns_outcome[OF analysis_2_returns[OF never_raises_demo] outputs_exist_rerun]
  obtain a where a: "analysis_2 demo_lib rerun_world
      = (Inr a, snd (analysis_2 demo_lib rerun_world))"
    by blast
  from returns_outcome[OF sed_fitting_returns[OF never_raises_demo] outputs_exist_rerun]
  obtain b where b: "sed_fitting demo_lib rerun_world
      = (Inr b, snd (sed_fitting demo_lib rerun_world))"
    by blast
  from a notebooks_stages[of demo_lib rerun_world a "snd (analysis_2 demo_lib rerun_world)"]
  have "stages (new_events rerun_world (snd (analysis_2 demo_lib rerun_world))) = pipeline"
    by blast
  moreover
  from b notebooks_stages[of demo_lib rerun_world b "snd (sed_fitting demo_lib rerun_world)"]
  have "stages (new_events rerun_world (snd (sed_fitting demo_lib rerun_world)))
      = sed_fitting_stages"
    by blast
  ultimately show ?thesis by blast
qed

text \<open>
  C1 as stated fails at \<^verbatim>\<open>sed_fitting\<close>: run on the library that never raises, its
  stages are not the pipeline.
\<close>

theorem sed_fitting_is_no_pipeline:
  "\<not> performs_pipeline (new_events rerun_world (snd (sed_fitting demo_lib rerun_world)))"
proof -
  from returns_outcome[OF sed_fitting_returns[OF never_raises_demo] outputs_exist_rerun]
  obtain b where "sed_fitting demo_lib rerun_world
      = (Inr b, snd (sed_fitting demo_lib rerun_world))"
    by blast
  then have "stages (new_events rerun_world (snd (sed_fitting demo_lib rerun_world)))
      = sed_fitting_stages"
    by (rule sed_fitting_stages_run)
  then show ?thesis
    by (simp add: performs_pipeline_def sed_fitting_stages_def pipeline_def)
qed

section \<open>Exceptions\<close>





section \<open>Calls and arithmetic\<close>




section \<open>Files\<close>



section \<open>The flux points that reach the fits\<close>







lemma mean_error_update [simp]: "mean_error (r\<lparr>dnde_err := v\<rparr>) = mean_error r"
  by (simp add: mean_error_def)



section \<open>The stacked dataset keeps its geometry and its name\<close>

lemma stack_keeps:
  "md_geom (stack A target other) = md_geom target
   \<and> md_energy_axis_true (stack A target other) = md_energy_axis_true target
   \<and> md_name (stack A target other) = md_name target"
  by (simp add: stack_def)

lemma reduce_observation_keeps:
  assumes "reduce_observation A M stacked obs = Inr stacked'"
  shows "md_geom stacked' = md_geom stacked
         \<and> md_energy_axis_true stacked' = md_energy_axis_true stacked
         \<and> md_name stacked' = md_name stacked"
  using assms
  by (auto simp: reduce_observation_def stack_def split: sum.splits)

lemma reduce_observations_keeps:
  "md_geom (snd (reduce_observations A M stacked observations)) = md_geom stacked
   \<and> md_energy_axis_true (snd (reduce_observations A M stacked observations))
       = md_energy_axis_true stacked
   \<and> md_name (snd (reduce_observations A M stacked observations)) = md_name stacked"
proof (induction observations arbitrary: stacked)
  case Nil
  then show ?case by simp
next
  case (Cons obs rest)
  show ?case
  proof (cases "reduce_observation A M stacked obs")
    case (Inl e)
    then show ?thesis by simp
  next
    case (Inr stacked')
    with Cons.IH[of stacked'] reduce_observation_keeps[OF Inr] show ?thesis by simp
  qed
qed

text \<open>
  C9. An iteration of the loop that completes hands on a target dataset with the
  geometry, the true-energy axis and the name it had before: stacking changes the counts,
  the background, the exposure and the mask, and nothing else. An iteration that raises
  leaves the target as it was. So after the loop, however it ended, the dataset created
  with a geometry, an axis and the name \<^verbatim>\<open>crab-stacked\<close> still has all three.
\<close>

theorem stacked_keeps_geometry_and_name:
  "(\<forall>stacked'. reduce_observation A M stacked obs = Inr stacked' \<longrightarrow>
      md_geom stacked' = md_geom stacked
      \<and> md_energy_axis_true stacked' = md_energy_axis_true stacked
      \<and> md_name stacked' = md_name stacked)
   \<and> md_geom (snd (crab_stacked A M geom energy_axis_true observations)) = geom
   \<and> md_energy_axis_true (snd (crab_stacked A M geom energy_axis_true observations))
       = energy_axis_true
   \<and> md_name (snd (crab_stacked A M geom energy_axis_true observations)) = ''crab-stacked''"
proof -
  have one: "\<forall>stacked'. reduce_observation A M stacked obs = Inr stacked' \<longrightarrow>
      md_geom stacked' = md_geom stacked
      \<and> md_energy_axis_true stacked' = md_energy_axis_true stacked
      \<and> md_name stacked' = md_name stacked"
    by (blast dest: reduce_observation_keeps)
  let ?created = "MapDataset_create A geom energy_axis_true ''crab-stacked''"
  note loop = reduce_observations_keeps[of A M ?created observations]
  have run: "crab_stacked A M geom energy_axis_true observations
      = reduce_observations A M ?created observations"
    by (simp add: crab_stacked_def Let_def)
  have g: "md_geom (snd (crab_stacked A M geom energy_axis_true observations)) = geom"
    unfolding run using loop by (simp add: MapDataset_create_def)
  have e: "md_energy_axis_true (snd (crab_stacked A M geom energy_axis_true observations))
      = energy_axis_true"
    unfolding run using loop by (simp add: MapDataset_create_def)
  have n: "md_name (snd (crab_stacked A M geom energy_axis_true observations)) = ''crab-stacked''"
    unfolding run using loop by (simp add: MapDataset_create_def)
  from one g e n show ?thesis by blast
qed

theorem stacked_keeps_geometry_and_name_witness:
  "crab_stacked demo_algebra demo_makers ''geom'' ''axis'' [2, 3]
     = (None, \<lparr>md_geom = ''geom'', md_energy_axis_true = ''axis'', md_name = ''crab-stacked'',
               md_counts = 5, md_background = 4, md_exposure = 6, md_mask_safe = 5\<rparr>)
   \<and> crab_stacked demo_algebra demo_makers ''geom'' ''axis'' [2, 0, 3]
     = (Some (PyExc ''ValueError''),
        \<lparr>md_geom = ''geom'', md_energy_axis_true = ''axis'', md_name = ''crab-stacked'',
         md_counts = 2, md_background = 2, md_exposure = 3, md_mask_safe = 5\<rparr>)
   \<and> md_name (snd (crab_stacked demo_algebra demo_makers ''geom'' ''axis'' [2, 3]))
       = ''crab-stacked''"
proof -
  let ?s0 = "MapDataset_create demo_algebra ''geom'' ''axis'' ''crab-stacked''"
  let ?s1 = "\<lparr>md_geom = ''geom'', md_energy_axis_true = ''axis'', md_name = ''crab-stacked'',
             md_counts = 2, md_background = 2, md_exposure = 3, md_mask_safe = (5::nat)\<rparr>"
  let ?s2 = "\<lparr>md_geom = ''geom'', md_energy_axis_true = ''axis'', md_name = ''crab-stacked'',
             md_counts = 5, md_background = 4, md_exposure = 6, md_mask_safe = (5::nat)\<rparr>"
  have 1: "reduce_observation demo_algebra demo_makers ?s0 2 = Inr ?s1"
    by (simp add: reduce_observation_def demo_makers_def demo_algebra_def stack_def
          MapDataset_create_def)
  have 2: "reduce_observation demo_algebra demo_makers ?s1 3 = Inr ?s2"
    by (simp add: reduce_observation_def demo_makers_def demo_algebra_def stack_def)
  have 3: "reduce_observation demo_algebra demo_makers ?s1 0 = Inl (PyExc ''ValueError'')"
    by (simp add: reduce_observation_def demo_makers_def)
  have a: "crab_stacked demo_algebra demo_makers ''geom'' ''axis'' [2, 3] = (None, ?s2)"
    by (simp add: crab_stacked_def Let_def 1 2)
  have b: "crab_stacked demo_algebra demo_makers ''geom'' ''axis'' [2, 0, 3]
      = (Some (PyExc ''ValueError''), ?s1)"
    by (simp add: crab_stacked_def Let_def 1 3)
  from stacked_keeps_geometry_and_name[of demo_algebra demo_makers ?s0 2 "''geom''" "''axis''"
      "[2, 3]"]
  have "md_name (snd (crab_stacked demo_algebra demo_makers ''geom'' ''axis'' [2, 3]))
      = ''crab-stacked''"
    by (rule conjunct2[THEN conjunct2, THEN conjunct2])
  with a b show ?thesis by (simp only: simp_thms)
qed

section \<open>Saving again\<close>









section \<open>The two notebooks do not meet\<close>

lemma sed_fitting_touches: "touches_only {} (sed_fitting L)"
  unfolding sed_fitting_def sed_fitting_cells step_wrappers flatten
  by (intro touches_only_bind touches_only_return touches_only_step)

lemma sed_fitting_reads: "reads_only {} (sed_fitting L)"
  unfolding sed_fitting_def sed_fitting_cells step_wrappers flatten
  by (intro reads_only_bind reads_only_return reads_only_step)

lemma reads_only_results:
  assumes "reads_only D m" and "\<forall>p\<in>D. fs w1 p = fs w2 p"
  shows "results (in_new_process x0 m) w1 = results (in_new_process x0 m) w2"
proof -
  from assms(2) have "alike D (w1\<lparr>trace := [], ext := x0\<rparr>) (w2\<lparr>trace := [], ext := x0\<rparr>)"
    by (simp add: alike_def)
  with assms(1) show ?thesis
    by (simp add: reads_only_def results_def in_new_process_def alike_def)
qed

text \<open>
  C7. Run each notebook in a process of its own, on any library and from any file
  system. What \<^verbatim>\<open>sed_fitting\<close> shows after \<^verbatim>\<open>analysis_2\<close> has run is what it
  shows alone, and what \<^verbatim>\<open>analysis_2\<close> shows after \<^verbatim>\<open>sed_fitting\<close> has run is
  what it shows alone: the outcome and every step are the same. The first holds because
  \<^verbatim>\<open>sed_fitting\<close> names no file, the second because it leaves every file as it found
  it.
\<close>

theorem notebooks_independent:
  fixes L :: "('o, 'x) library"
  shows "run_after x0 (analysis_2 L) (sed_fitting L) w = run_alone x0 (sed_fitting L) w
   \<and> run_after x0 (sed_fitting L) (analysis_2 L) w = run_alone x0 (analysis_2 L) w
     \<and> fs (snd (sed_fitting L w)) = fs w"
proof -
  have 1: "run_after x0 (analysis_2 L) (sed_fitting L) w = run_alone x0 (sed_fitting L) w"
    unfolding run_after_def run_alone_def
    by (rule reads_only_results[OF sed_fitting_reads]) simp
  have same: "fs (snd (sed_fitting L w0)) = fs w0" for w0 :: "('o, 'x) world"
    using sed_fitting_touches[of L] by (simp add: touches_only_def fun_eq_iff)
  have 2: "run_after x0 (sed_fitting L) (analysis_2 L) w = run_alone x0 (analysis_2 L) w"
    unfolding run_after_def run_alone_def
    by (rule reads_only_results[OF analysis_2_reads])
       (simp add: in_new_process_def same)
  from 1 2 same show ?thesis by blast
qed

section \<open>Theorems about the build matrix\<close>

lemma export_all_unset:
  "n \<notin> fst ` set as \<Longrightarrow> export_all E as n = E n"
  by (induction as arbitrary: E) auto

lemma cmd_not_global: "export_all (\<lambda>n. None) env_global ''CMD'' = None"
  by (subst export_all_unset) (simp_all add: env_global_def)

text \<open>
  C2, at the entry that breaks it. The eighth matrix entry (``Test with Sherpa dev'')
  assigns \<^verbatim>\<open>SETUP_CMD='make test'\<close> and never \<^verbatim>\<open>CMD\<close>; no global assignment
  sets \<^verbatim>\<open>CMD\<close> either, so the script line \<^verbatim>\<open>$CMD\<close> expands to the empty string
  and the job runs no command of its own.
\<close>

theorem sherpa_dev_job_runs_no_command:
  "job_comment sherpa_dev_job = ''Test with Sherpa dev, this may take a longer time''
   \<and> map_of (job_env sherpa_dev_job) ''SETUP_CMD'' = Some [Lit ''make test'']
   \<and> declared_cmd sherpa_dev_job = None
   \<and> script_command sherpa_dev_job = []
   \<and> \<not> runs_declared_cmd sherpa_dev_job"
proof -
  have env: "job_env sherpa_dev_job =
      [(''PYTHON_VERSION'', [Lit ''3.6'']),
       (''SETUP_CMD'', [Lit ''make test'']),
       (''CONDA_DEPENDENCIES'', [Var ''CONDA_DEPENDENCIES_WO_SHERPA'']),
       (''DEBUG'', [Lit ''True'']),
       (''PIP_DEPENDENCIES'',
          [Lit ''git+http://github.com/sherpa/sherpa.git#egg=sherpa pytest-astropy parfive pydantic''])]"
    by (simp add: sherpa_dev_job_def matrix_include_def)
  have unset: "job_environment sherpa_dev_job ''CMD'' = None"
    unfolding job_environment_def
    by (subst export_all_unset) (simp_all add: env cmd_not_global)
  have decl: "declared_cmd sherpa_dev_job = None"
    by (simp add: declared_cmd_def env)
  have run: "script_command sherpa_dev_job = []"
    by (simp add: script_command_def script_last_line_def expand_def unset)
  have com: "job_comment sherpa_dev_job = ''Test with Sherpa dev, this may take a longer time''"
    by (simp add: sherpa_dev_job_def matrix_include_def)
  show ?thesis
    using env decl run com by (simp add: runs_declared_cmd_def)
qed

end
